theory Spec2Isabelle
  imports Main
begin

section \<open>JavaScript values\<close>

text \<open>
  Manifest documents, config records and response bodies are semi-structured values.
  An object is an association list of its own properties; numbers are integers here.
\<close>

datatype json =
    JUndefined
  | JNull
  | JBool bool
  | JNum int
  | JStr string
  | JArr "json list"
  | JObj "(string \<times> json) list"

text \<open>
  What a handler can fail with: a \<open>TypeError\<close> raised by the language itself, a value
  thrown by the code (\<open>throw `...`\<close>), or the rejection of a collaborator's promise.
\<close>

datatype exn = TypeError string | Thrown string | Rejected string

text \<open>\<open>!v\<close>: the falsy values.\<close>

fun falsy :: "json \<Rightarrow> bool" where
  "falsy JUndefined = True"
| "falsy JNull = True"
| "falsy (JBool b) = (\<not> b)"
| "falsy (JNum n) = (n = 0)"
| "falsy (JStr s) = (s = [])"
| "falsy (JArr xs) = False"
| "falsy (JObj kvs) = False"

text \<open>\<open>v == null\<close>: true of \<open>null\<close> and \<open>undefined\<close> only.\<close>

fun nullish :: "json \<Rightarrow> bool" where
  "nullish JUndefined = True"
| "nullish JNull = True"
| "nullish v = False"

text \<open>
  \<open>v.k\<close>: a TypeError on \<open>undefined\<close> and \<open>null\<close>, the property of an object,
  \<open>undefined\<close> where it is missing. None of the property names this program reads
  (spec, secretRef, name, encryptedData, flux, url) exists on a boolean, number, string
  or array.
\<close>

fun js_get :: "json \<Rightarrow> string \<Rightarrow> exn + json" where
  "js_get JUndefined k = Inl (TypeError (''Cannot read properties of undefined: '' @ k))"
| "js_get JNull k = Inl (TypeError (''Cannot read properties of null: '' @ k))"
| "js_get (JObj kvs) k = Inr (case map_of kvs k of None \<Rightarrow> JUndefined | Some v \<Rightarrow> v)"
| "js_get v k = Inr JUndefined"

text \<open>
  \<open>k in v\<close>: a TypeError unless \<open>v\<close> is an object; an array has none of the keys this
  program asks for (bearerToken, username, password).
\<close>

fun js_in :: "string \<Rightarrow> json \<Rightarrow> exn + bool" where
  "js_in k (JObj kvs) = Inr (map_of kvs k \<noteq> None)"
| "js_in k (JArr xs) = Inr False"
| "js_in k v = Inl (TypeError (''Cannot use in operator to search for '' @ k))"

text \<open>Decimal rendering of a number, as a template literal does it.\<close>

fun show_nat :: "nat \<Rightarrow> string" where
  "show_nat n =
     (if n < 10 then [''0123456789'' ! n]
      else show_nat (n div 10) @ [''0123456789'' ! (n mod 10)])"

text \<open>\<open>Object.keys(v).join(sep)\<close>, used for a log line only.\<close>

fun object_keys :: "json \<Rightarrow> string list" where
  "object_keys (JObj kvs) = map fst kvs"
| "object_keys (JArr xs) = map show_nat [0..<length xs]"
| "object_keys v = []"

fun join :: "string \<Rightarrow> string list \<Rightarrow> string" where
  "join sep [] = []"
| "join sep [x] = x"
| "join sep (x # y # ys) = x @ sep @ join sep (y # ys)"

section \<open>Collaborators and their calls\<close>

datatype perm = Perm_Clusters | Perm_Secrets
datatype app = App_Info | App_Cluster
datatype klass = Class_Cluster
datatype service = Service_Git

type_synonym checkout = nat

definition FLUX_NS :: string where
  "FLUX_NS = ''flux-system''"

definition UUIDs_Null :: string where
  "UUIDs_Null = ''00000000-0000-0000-0000-000000000000''"

text \<open>The options object handed to the Secret Sealer, and to \<open>write_sealed_secret\<close>.\<close>

record secret_opts =
  so_cluster :: string
  so_namespace :: string
  so_name :: string
  so_key :: string
  so_content :: "string option"
  so_dryrun :: bool

text \<open>The response of \<open>fplus.fetch\<close>: its status and what \<open>res.json()\<close> resolves to.\<close>

record fetch_res =
  fr_status :: nat
  fr_json :: "exn + json"

text \<open>Every call the Orchestrator makes on a collaborator, and every log line.\<close>

datatype event =
    Log string "json list"
  | CheckAcl string perm string bool
  | GetConfig app string
  | CheckoutClone json
  | CheckoutInit json
  | ListManifests checkout string string
  | ReadManifest checkout string string json
  | Dispose checkout
  | Fetch service string string
  | CreateObject klass
  | PutConfig app string json
  | WriteFile checkout string string
  | Commit checkout string
  | Push checkout
  | WriteManifest checkout json
  | ServiceUrl service
  | SealSecret secret_opts
  | DeleteSecret secret_opts

text \<open>
  The collaborators are not part of this program: what each call answers is a parameter.
  \<open>Inl\<close> is a rejected promise (or a throw), \<open>Inr\<close> the resolved value.
  \<open>manifests_*\<close> are the manifest templates, \<open>new_URL\<close> is
  \<open>new URL(source, base).toString()\<close>, and \<open>repo_group\<close> is \<open>this.group\<close>.
\<close>

record env =
  Auth_check_acl :: "string \<Rightarrow> perm \<Rightarrow> string \<Rightarrow> bool \<Rightarrow> exn + bool"
  ConfigDB_get_config :: "app \<Rightarrow> string \<Rightarrow> exn + json"
  ConfigDB_create_object :: "klass \<Rightarrow> exn + string"
  ConfigDB_put_config :: "app \<Rightarrow> string \<Rightarrow> json \<Rightarrow> exn + unit"
  Discovery_service_url :: "service \<Rightarrow> exn + string"
  fplus_fetch :: "service \<Rightarrow> string \<Rightarrow> string \<Rightarrow> exn + fetch_res"
  Checkout_clone :: "json \<Rightarrow> exn + checkout"
  Checkout_init :: "json \<Rightarrow> exn + checkout"
  co_list_manifests :: "checkout \<Rightarrow> string \<Rightarrow> string \<Rightarrow> exn + (string \<times> string \<times> string) list"
  co_read_manifest :: "checkout \<Rightarrow> string \<Rightarrow> string \<Rightarrow> json \<Rightarrow> exn + json"
  co_write_file :: "checkout \<Rightarrow> string \<Rightarrow> string \<Rightarrow> exn + unit"
  co_write_manifest :: "checkout \<Rightarrow> json \<Rightarrow> exn + unit"
  co_commit :: "checkout \<Rightarrow> string \<Rightarrow> exn + unit"
  co_push :: "checkout \<Rightarrow> exn + unit"
  co_dispose :: "checkout \<Rightarrow> exn + unit"
  secrets_seal_secret :: "secret_opts \<Rightarrow> exn + nat"
  secrets_delete_secret :: "secret_opts \<Rightarrow> exn + nat"
  manifests_README :: string
  manifests_git_repo :: "string \<Rightarrow> string \<Rightarrow> string \<Rightarrow> json"
  manifests_flux_kust :: "string \<Rightarrow> string \<Rightarrow> string \<Rightarrow> json"
  new_URL :: "string \<Rightarrow> string \<Rightarrow> exn + string"
  repo_group :: string

section \<open>Sequencing: awaits, throws and the call log\<close>

text \<open>
  An async method is a function from the log of calls made so far to its outcome
  (a thrown value or a result) and the extended log. \<open>bnd\<close> is \<open>await\<close> followed by
  the rest of the body: a failure skips the rest.
\<close>

type_synonym 'a io = "event list \<Rightarrow> (exn + 'a) \<times> event list"

definition ret :: "'a \<Rightarrow> 'a io" where
  "ret x = (\<lambda>tr. (Inr x, tr))"

definition throw :: "exn \<Rightarrow> 'a io" where
  "throw e = (\<lambda>tr. (Inl e, tr))"

definition lift :: "exn + 'a \<Rightarrow> 'a io" where
  "lift r = (\<lambda>tr. (r, tr))"

definition call :: "event \<Rightarrow> exn + 'a \<Rightarrow> 'a io" where
  "call ev r = (\<lambda>tr. (r, tr @ [ev]))"

definition bnd :: "'a io \<Rightarrow> ('a \<Rightarrow> 'b io) \<Rightarrow> 'b io" where
  "bnd m f = (\<lambda>tr. case m tr of (Inl e, tr') \<Rightarrow> (Inl e, tr') | (Inr x, tr') \<Rightarrow> f x tr')"

definition log :: "string \<Rightarrow> json list \<Rightarrow> unit io" where
  "log fmt args = call (Log fmt args) (Inr ())"

text \<open>
  \<open>Promise.all(ps)\<close> over promises that are all already started: the values in order,
  or a rejection (the first one in list order is taken here).
\<close>

fun promise_all :: "(exn + 'a) list \<Rightarrow> exn + 'a list" where
  "promise_all [] = Inr []"
| "promise_all (Inl e # rs) = Inl e"
| "promise_all (Inr x # rs) = (case promise_all rs of Inl e \<Rightarrow> Inl e | Inr xs \<Rightarrow> Inr (x # xs))"

section \<open>Requests and responses\<close>

text \<open>
  The body of a provisioning request, parsed into the shape of the data model; \<open>None\<close>
  is an absent \<open>namespace\<close> or \<open>sources\<close>. A request carries the principal, the
  body, the route parameters, the query string and the raw content.
\<close>

record cluster_spec =
  cs_name :: string
  cs_namespace :: "string option"
  cs_sources :: "string list option"
  cs_kubeseal_cert :: string

record route_params =
  p_cluster :: string
  p_namespace :: string
  p_name :: string
  p_key :: string

record request =
  auth :: string
  body :: cluster_spec
  params :: route_params
  query :: "(string \<times> string) list"
  content :: string

record response =
  status :: nat
  payload :: "json option"

text \<open>What \<open>wrap\<close> makes of a handler: a response was sent, or \<open>next(e)\<close> was called.\<close>

datatype outcome = Sent response | Next exn

definition wrap :: "response io \<Rightarrow> event list \<Rightarrow> outcome \<times> event list" where
  "wrap fn tr = (case fn tr of (Inr res, tr') \<Rightarrow> (Sent res, tr') | (Inl e, tr') \<Rightarrow> (Next e, tr'))"

section \<open>Readiness verification\<close>

text \<open>\<open>gitr => gitr.spec?.secretRef?.name\<close>\<close>

definition gitr_secret_name :: "json \<Rightarrow> exn + json" where
  "gitr_secret_name gitr =
     (case js_get gitr ''spec'' of
        Inl e \<Rightarrow> Inl e
      | Inr sp \<Rightarrow>
          if nullish sp then Inr JUndefined
          else (case js_get sp ''secretRef'' of
                  Inl e \<Rightarrow> Inl e
                | Inr sref \<Rightarrow> if nullish sref then Inr JUndefined else js_get sref ''name''))"

text \<open>\<open>("bearerToken" in enc) || ("username" in enc && "password" in enc)\<close>\<close>

definition has_creds :: "json \<Rightarrow> exn + bool" where
  "has_creds enc =
     (case js_in ''bearerToken'' enc of
        Inl e \<Rightarrow> Inl e
      | Inr True \<Rightarrow> Inr True
      | Inr False \<Rightarrow>
          (case js_in ''username'' enc of
             Inl e \<Rightarrow> Inl e
           | Inr False \<Rightarrow> Inr False
           | Inr True \<Rightarrow> js_in ''password'' enc))"

text \<open>The \<open>for (const sname of secrets)\<close> loop of \<open>cluster_has_git_creds\<close>.\<close>

fun check_secrets :: "env \<Rightarrow> checkout \<Rightarrow> json list \<Rightarrow> bool io" where
  "check_secrets E co [] = ret True"
| "check_secrets E co (sname # rest) =
     bnd (call (ReadManifest co FLUX_NS ''SealedSecret'' sname)
            (co_read_manifest E co FLUX_NS ''SealedSecret'' sname)) (\<lambda>sealed.
     if falsy sealed then
       bnd (log ''No sealed secret %s'' [sname]) (\<lambda>_. ret False)
     else
       bnd (lift (js_get sealed ''spec'')) (\<lambda>sp.
       bnd (lift (js_get sp ''encryptedData'')) (\<lambda>enc.
       bnd (lift (has_creds enc)) (\<lambda>creds.
       if \<not> creds then
         bnd (log ''Missing keys in secret %s, we have: %s''
                [sname, JStr (join '', '' (object_keys enc))]) (\<lambda>_. ret False)
       else check_secrets E co rest))))"

text \<open>
  The reads of all listed manifests are started together (\<open>repos.map\<close>), so every read is
  logged before any of them is awaited; then the names are collected and the null ones
  dropped.
\<close>

definition read_secret_names :: "env \<Rightarrow> checkout \<Rightarrow> (string \<times> string \<times> string) list \<Rightarrow> json list io" where
  "read_secret_names E co repos =
     (\<lambda>tr.
        (case promise_all
                (map (\<lambda>(ns, kind, name).
                        case co_read_manifest E co ns kind (JStr name) of
                          Inl e \<Rightarrow> Inl e
                        | Inr gitr \<Rightarrow> gitr_secret_name gitr) repos) of
           Inl e \<Rightarrow> Inl e
         | Inr names \<Rightarrow> Inr (filter (\<lambda>i. \<not> nullish i) names),
         tr @ map (\<lambda>(ns, kind, name). ReadManifest co ns kind (JStr name)) repos))"

definition cluster_has_git_creds :: "env \<Rightarrow> checkout \<Rightarrow> bool io" where
  "cluster_has_git_creds E co =
     bnd (call (ListManifests co FLUX_NS ''GitRepository'')
            (co_list_manifests E co FLUX_NS ''GitRepository'')) (\<lambda>repos.
     bnd (read_secret_names E co repos) (\<lambda>secrets.
     check_secrets E co secrets))"

definition cluster_status :: "env \<Rightarrow> request \<Rightarrow> response io" where
  "cluster_status E req =
     (let cluster = p_cluster (params req) in
      bnd (call (CheckAcl (auth req) Perm_Clusters cluster True)
             (Auth_check_acl E (auth req) Perm_Clusters cluster True)) (\<lambda>ok.
      if \<not> ok then ret \<lparr>status = 403, payload = None\<rparr>
      else
        bnd (call (GetConfig App_Cluster cluster)
               (ConfigDB_get_config E App_Cluster cluster)) (\<lambda>info.
        if falsy info then ret \<lparr>status = 404, payload = None\<rparr>
        else
          bnd (lift (js_get info ''flux'')) (\<lambda>flux.
          bnd (call (CheckoutClone flux) (Checkout_clone E flux)) (\<lambda>co.
          bnd (cluster_has_git_creds E co) (\<lambda>ready.
          bnd (call (Dispose co) (co_dispose E co)) (\<lambda>_.
          ret \<lparr>status = 200, payload = Some (JObj [(''ready'', JBool ready)])\<rparr>)))))))"

section \<open>Cluster creation\<close>

definition create_repo :: "env \<Rightarrow> string \<Rightarrow> json io" where
  "create_repo E name =
     (let repo = repo_group E @ ''/'' @ name in
      bnd (log ''Creating repo %s'' [JStr repo]) (\<lambda>_.
      bnd (call (Fetch Service_Git ''POST'' (''/git/'' @ repo))
             (fplus_fetch E Service_Git ''POST'' (''/git/'' @ repo))) (\<lambda>res.
      if fr_status res \<noteq> 200 then
        throw (Thrown (''Git: can't create repo '' @ repo @ '': '' @ show_nat (fr_status res)))
      else lift (fr_json res))))"

definition create_cluster_objects :: "env \<Rightarrow> cluster_spec \<Rightarrow> json \<Rightarrow> string io" where
  "create_cluster_objects E spec repo =
     (let name = cs_name spec;
          kubeseal_cert = cs_kubeseal_cert spec;
          namespace = (case cs_namespace spec of None \<Rightarrow> ''fplus-edge'' | Some ns \<Rightarrow> ns) in
      bnd (call (CreateObject Class_Cluster) (ConfigDB_create_object E Class_Cluster)) (\<lambda>uuid.
      bnd (log ''Created Edge Cluster %s'' [JStr uuid]) (\<lambda>_.
      bnd (call (PutConfig App_Info uuid (JObj [(''name'', JStr name)]))
             (ConfigDB_put_config E App_Info uuid (JObj [(''name'', JStr name)]))) (\<lambda>_.
      bnd (call (PutConfig App_Cluster uuid
                   (JObj [(''flux'', repo), (''namespace'', JStr namespace),
                          (''kubeseal_cert'', JStr kubeseal_cert)]))
             (ConfigDB_put_config E App_Cluster uuid
                   (JObj [(''flux'', repo), (''namespace'', JStr namespace),
                          (''kubeseal_cert'', JStr kubeseal_cert)]))) (\<lambda>_.
      ret uuid)))))"

text \<open>
  \<open>this.write_sealed_secret\<close>: the class \<open>EdgeDeploy\<close> declares no member of that name
  (its methods are wrap, init, create_cluster, cluster_has_git_creds, cluster_status,
  create_repo, create_cluster_objects, populate_cluster_repo, setup_repo_links,
  seal_secret and delete_sealed_secret; the constructor sets fplus, http_url, group, log,
  routes and secrets; there is no superclass). The member access yields \<open>undefined\<close>, and
  calling it, once the arguments are evaluated, raises a TypeError.
\<close>

definition write_sealed_secret ::
  "checkout \<Rightarrow> string \<Rightarrow> string \<Rightarrow> string \<Rightarrow> string \<Rightarrow> string \<Rightarrow> unit io" where
  "write_sealed_secret co cert namespace name key contents =
     throw (TypeError ''this.write_sealed_secret is not a function'')"

text \<open>\<open>s.replace(a, b)\<close> with a string pattern: the first occurrence only.\<close>

fun replace_first :: "char \<Rightarrow> char \<Rightarrow> string \<Rightarrow> string" where
  "replace_first a b [] = []"
| "replace_first a b (c # cs) = (if c = a then b # cs else c # replace_first a b cs)"

text \<open>The \<open>for (const source of spec.sources)\<close> loop of \<open>setup_repo_links\<close>.\<close>

fun write_sources :: "env \<Rightarrow> checkout \<Rightarrow> string \<Rightarrow> string list \<Rightarrow> unit io" where
  "write_sources E co git_base [] = ret ()"
| "write_sources E co git_base (source # rest) =
     (let name = replace_first (CHR ''/'') (CHR ''.'') source in
      bnd (lift (new_URL E source git_base)) (\<lambda>url.
      bnd (log ''Adding source %s'' [JStr url]) (\<lambda>_.
      bnd (call (WriteManifest co (manifests_git_repo E FLUX_NS name url))
             (co_write_manifest E co (manifests_git_repo E FLUX_NS name url))) (\<lambda>_.
      bnd (call (WriteManifest co (manifests_flux_kust E FLUX_NS name name))
             (co_write_manifest E co (manifests_flux_kust E FLUX_NS name name))) (\<lambda>_.
      write_sources E co git_base rest)))))"

definition setup_repo_links :: "env \<Rightarrow> checkout \<Rightarrow> cluster_spec \<Rightarrow> unit io" where
  "setup_repo_links E co spec =
     (case cs_sources spec of
        None \<Rightarrow> ret ()
      | Some sources \<Rightarrow>
          bnd (call (ServiceUrl Service_Git) (Discovery_service_url E Service_Git)) (\<lambda>git_base.
          bnd (write_sealed_secret co (cs_kubeseal_cert spec)
                 FLUX_NS ''op1flux-secrets'' ''username'' (''op1flux/'' @ cs_name spec)) (\<lambda>_.
          bnd (write_sources E co git_base sources) (\<lambda>_.
          call (Commit co ''Written flux source manifests.'')
            (co_commit E co ''Written flux source manifests.'')))))"

definition populate_cluster_repo :: "env \<Rightarrow> json \<Rightarrow> cluster_spec \<Rightarrow> unit io" where
  "populate_cluster_repo E repo spec =
     bnd (log ''Performing initial cluster deployment'' []) (\<lambda>_.
     bnd (lift (js_get repo ''url'')) (\<lambda>url.
     bnd (call (CheckoutInit url) (Checkout_init E url)) (\<lambda>co.
     bnd (call (WriteFile co ''README.md'' (manifests_README E))
            (co_write_file E co ''README.md'' (manifests_README E))) (\<lambda>_.
     bnd (call (Commit co ''Add README.'') (co_commit E co ''Add README.'')) (\<lambda>_.
     bnd (setup_repo_links E co spec) (\<lambda>_.
     bnd (call (Push co) (co_push E co)) (\<lambda>_.
     log ''Pushed initial commits'' [])))))))"

definition create_cluster :: "env \<Rightarrow> request \<Rightarrow> response io" where
  "create_cluster E req =
     (let name = cs_name (body req) in
      bnd (call (CheckAcl (auth req) Perm_Clusters UUIDs_Null False)
             (Auth_check_acl E (auth req) Perm_Clusters UUIDs_Null False)) (\<lambda>ok.
      if \<not> ok then ret \<lparr>status = 403, payload = None\<rparr>
      else
        bnd (create_repo E name) (\<lambda>repo.
        bnd (lift (js_get repo ''url'')) (\<lambda>url.
        bnd (create_cluster_objects E (body req) url) (\<lambda>uuid.
        bnd (populate_cluster_repo E repo (body req)) (\<lambda>_.
        bnd (lift (js_get repo ''url'')) (\<lambda>flux.
        ret \<lparr>status = 201,
             payload = Some (JObj [(''uuid'', JStr uuid), (''flux'', flux)])\<rparr>)))))))"

section \<open>Secret sealing delegation\<close>

text \<open>\<open>"dryrun" in req.query\<close>: whether the query string has a parameter of that name.\<close>

definition dryrun_in :: "(string \<times> string) list \<Rightarrow> bool" where
  "dryrun_in q = (map_of q ''dryrun'' \<noteq> None)"

definition seal_secret :: "env \<Rightarrow> request \<Rightarrow> response io" where
  "seal_secret E req =
     (let opts = \<lparr>so_cluster = p_cluster (params req),
                  so_namespace = p_namespace (params req),
                  so_name = p_name (params req),
                  so_key = p_key (params req),
                  so_content = Some (content req),
                  so_dryrun = dryrun_in (query req)\<rparr> in
      bnd (call (CheckAcl (auth req) Perm_Secrets (so_cluster opts) True)
             (Auth_check_acl E (auth req) Perm_Secrets (so_cluster opts) True)) (\<lambda>ok.
      if \<not> ok then ret \<lparr>status = 403, payload = None\<rparr>
      else
        bnd (call (SealSecret opts) (secrets_seal_secret E opts)) (\<lambda>st.
        ret \<lparr>status = st, payload = None\<rparr>)))"

definition delete_sealed_secret :: "env \<Rightarrow> request \<Rightarrow> response io" where
  "delete_sealed_secret E req =
     (let opts = \<lparr>so_cluster = p_cluster (params req),
                  so_namespace = p_namespace (params req),
                  so_name = p_name (params req),
                  so_key = p_key (params req),
                  so_content = None,
                  so_dryrun = dryrun_in (query req)\<rparr> in
      bnd (call (CheckAcl (auth req) Perm_Secrets (so_cluster opts) True)
             (Auth_check_acl E (auth req) Perm_Secrets (so_cluster opts) True)) (\<lambda>ok.
      if \<not> ok then ret \<lparr>status = 403, payload = None\<rparr>
      else
        bnd (call (DeleteSecret opts) (secrets_delete_secret E opts)) (\<lambda>st.
        ret \<lparr>status = st, payload = None\<rparr>)))"

section \<open>The HTTP surface\<close>

datatype endpoint = POST_cluster | GET_cluster_status | PUT_cluster_secret | DELETE_cluster_secret

text \<open>The routing table set up by \<open>init\<close>: every handler goes through \<open>wrap\<close>.\<close>

fun routes :: "env \<Rightarrow> endpoint \<Rightarrow> request \<Rightarrow> event list \<Rightarrow> outcome \<times> event list" where
  "routes E POST_cluster req = wrap (create_cluster E req)"
| "routes E GET_cluster_status req = wrap (cluster_status E req)"
| "routes E PUT_cluster_secret req = wrap (seal_secret E req)"
| "routes E DELETE_cluster_secret req = wrap (delete_sealed_secret E req)"

section \<open>What the specification says, for comparison with the code\<close>

subsection \<open>Readiness\<close>

text \<open>
  The name a \<open>GitRepository\<close> document gives in \<open>spec.secretRef.name\<close>, if it gives
  one: the specification discards the documents that give none.
\<close>

fun secret_ref :: "json \<Rightarrow> json option" where
  "secret_ref (JObj kvs) =
     (case map_of kvs ''spec'' of
        Some (JObj sp) \<Rightarrow>
          (case map_of sp ''secretRef'' of
             Some (JObj sref) \<Rightarrow>
               (case map_of sref ''name'' of
                  Some n \<Rightarrow> if nullish n then None else Some n
                | None \<Rightarrow> None)
           | _ \<Rightarrow> None)
      | _ \<Rightarrow> None)"
| "secret_ref v = None"

text \<open>\<open>spec.encryptedData\<close> of a \<open>SealedSecret\<close> document, \<open>undefined\<close> where it has none.\<close>

fun encrypted_data :: "json \<Rightarrow> json" where
  "encrypted_data (JObj kvs) =
     (case map_of kvs ''spec'' of
        Some (JObj sp) \<Rightarrow> (case map_of sp ''encryptedData'' of Some enc \<Rightarrow> enc | None \<Rightarrow> JUndefined)
      | _ \<Rightarrow> JUndefined)"
| "encrypted_data v = JUndefined"

text \<open>
  The accepted credential shapes: the key set contains \<open>bearerToken\<close>, or both
  \<open>username\<close> and \<open>password\<close>.
\<close>

definition key_set_ok :: "(string \<times> json) list \<Rightarrow> bool" where
  "key_set_ok enc =
     (''bearerToken'' \<in> fst ` set enc \<or>
      (''username'' \<in> fst ` set enc \<and> ''password'' \<in> fst ` set enc))"

datatype cred_shape = Accepted | MissingKeys | Malformed

definition cred_shape :: "json \<Rightarrow> cred_shape" where
  "cred_shape sealed =
     (case encrypted_data sealed of
        JObj enc \<Rightarrow> if key_set_ok enc then Accepted else MissingKeys
      | JArr xs \<Rightarrow> MissingKeys
      | _ \<Rightarrow> Malformed)"

text \<open>
  A referenced secret is matched when the checkout has a \<open>SealedSecret\<close> of that name in
  the flux-system namespace and its credential shape is accepted.
\<close>

definition matched :: "env \<Rightarrow> checkout \<Rightarrow> json \<Rightarrow> bool" where
  "matched E co sname =
     (case co_read_manifest E co FLUX_NS ''SealedSecret'' sname of
        Inl e \<Rightarrow> False
      | Inr sealed \<Rightarrow> cred_shape sealed = Accepted)"

text \<open>The secret names referenced by the listed manifests, in listing order.\<close>

definition referenced :: "env \<Rightarrow> checkout \<Rightarrow> (string \<times> string \<times> string) list \<Rightarrow> json list" where
  "referenced E co repos =
     List.map_filter
       (\<lambda>(ns, kind, name).
          case co_read_manifest E co ns kind (JStr name) of
            Inl e \<Rightarrow> None
          | Inr gitr \<Rightarrow> secret_ref gitr) repos"

text \<open>Readiness as the specification states it: every referenced secret is matched.\<close>

definition spec_ready :: "env \<Rightarrow> checkout \<Rightarrow> (string \<times> string \<times> string) list \<Rightarrow> bool" where
  "spec_ready E co repos = list_all (matched E co) (referenced E co repos)"

text \<open>The checkout holds a document for every manifest it lists.\<close>

definition listed_present :: "env \<Rightarrow> checkout \<Rightarrow> (string \<times> string \<times> string) list \<Rightarrow> bool" where
  "listed_present E co repos =
     list_all
       (\<lambda>(ns, kind, name).
          case co_read_manifest E co ns kind (JStr name) of
            Inl e \<Rightarrow> False
          | Inr gitr \<Rightarrow> \<not> nullish gitr) repos"

subsection \<open>Ordering of the side effects\<close>

fun is_log :: "event \<Rightarrow> bool" where
  "is_log (Log fmt args) = True"
| "is_log ev = False"

text \<open>The collaborator calls of a run, without the log lines.\<close>

definition effects :: "event list \<Rightarrow> event list" where
  "effects tr = filter (\<lambda>ev. \<not> is_log ev) tr"

text \<open>
  The stages of cluster creation: 0 authorization, 1 repository creation, 2 registry
  (object and config records), 3 checkout (init, files, manifests, commits), 4 push.
  Calls that belong to the other endpoints are given stage 5.
\<close>

fun stage :: "event \<Rightarrow> nat" where
  "stage (CheckAcl a p r x) = 0"
| "stage (Log fmt args) = 0"
| "stage (Fetch s m u) = 1"
| "stage (CreateObject k) = 2"
| "stage (PutConfig a u v) = 2"
| "stage (CheckoutInit u) = 3"
| "stage (WriteFile co f c) = 3"
| "stage (ServiceUrl s) = 3"
| "stage (WriteManifest co d) = 3"
| "stage (Commit co m) = 3"
| "stage (Push co) = 4"
| "stage ev = 5"

text \<open>
  Whether the step a call stands for failed: the collaborator rejected, or (for the
  repository creation) answered with a status other than 200.
\<close>

fun failed :: "env \<Rightarrow> event \<Rightarrow> bool" where
  "failed E (Log fmt args) = False"
| "failed E (CheckAcl a p r x) = isl (Auth_check_acl E a p r x)"
| "failed E (GetConfig a c) = isl (ConfigDB_get_config E a c)"
| "failed E (CheckoutClone u) = isl (Checkout_clone E u)"
| "failed E (CheckoutInit u) = isl (Checkout_init E u)"
| "failed E (ListManifests co ns k) = isl (co_list_manifests E co ns k)"
| "failed E (ReadManifest co ns k n) = isl (co_read_manifest E co ns k n)"
| "failed E (Dispose co) = isl (co_dispose E co)"
| "failed E (Fetch s m u) =
     (case fplus_fetch E s m u of Inl e \<Rightarrow> True | Inr res \<Rightarrow> fr_status res \<noteq> 200)"
| "failed E (CreateObject k) = isl (ConfigDB_create_object E k)"
| "failed E (PutConfig a u v) = isl (ConfigDB_put_config E a u v)"
| "failed E (WriteFile co f c) = isl (co_write_file E co f c)"
| "failed E (Commit co m) = isl (co_commit E co m)"
| "failed E (Push co) = isl (co_push E co)"
| "failed E (WriteManifest co d) = isl (co_write_manifest E co d)"
| "failed E (ServiceUrl s) = isl (Discovery_service_url E s)"
| "failed E (SealSecret opts) = isl (secrets_seal_secret E opts)"
| "failed E (DeleteSecret opts) = isl (secrets_delete_secret E opts)"

text \<open>
  The invariant of a computation of cluster creation: it only appends to the call log;
  the collaborator calls it appends are in stage order, at stages between \<open>lo\<close> and
  \<open>hi\<close>; none but the last of them has failed, and none at all when the computation
  returns.
\<close>

definition within :: "env \<Rightarrow> nat \<Rightarrow> nat \<Rightarrow> 'a io \<Rightarrow> bool" where
  "within E lo hi m =
     (\<forall>tr. \<exists>r evs. m tr = (r, tr @ evs) \<and>
        sorted (map stage (effects evs)) \<and>
        list_all (\<lambda>ev. lo \<le> stage ev \<and> stage ev \<le> hi) (effects evs) \<and>
        list_all (\<lambda>ev. \<not> failed E ev) (butlast (effects evs)) \<and>
        (isl r \<or> list_all (\<lambda>ev. \<not> failed E ev) (effects evs)))"

subsection \<open>Reads and writes\<close>

text \<open>
  The calls that change a repository (remote or checked out), the registry or a sealed
  secret. Authorization checks, config lookups, cloning, listing and reading manifests,
  disposing of a clone, service discovery and log lines are not writes.
\<close>

fun is_write :: "event \<Rightarrow> bool" where
  "is_write (Fetch s m u) = True"
| "is_write (CreateObject k) = True"
| "is_write (PutConfig a u v) = True"
| "is_write (CheckoutInit u) = True"
| "is_write (WriteFile co f c) = True"
| "is_write (WriteManifest co d) = True"
| "is_write (Commit co m) = True"
| "is_write (Push co) = True"
| "is_write (SealSecret opts) = True"
| "is_write (DeleteSecret opts) = True"
| "is_write ev = False"

text \<open>
  A computation only appends to the call log, its outcome does not depend on the log it
  starts from, and every call it appends satisfies \<open>P\<close>.
\<close>

definition emits :: "(event \<Rightarrow> bool) \<Rightarrow> 'a io \<Rightarrow> bool" where
  "emits P m = (\<forall>tr. m tr = (fst (m []), tr @ snd (m [])) \<and> list_all P (snd (m [])))"

subsection \<open>The setting of a readiness scan\<close>

text \<open>
  The status call is authorized, the registry has a \<open>Cluster\<close> config for the cluster,
  its repository clones to the checkout \<open>co\<close>, which lists the manifests \<open>repos\<close> and
  holds a document for each of them, and disposing of the clone does not throw.
\<close>

definition status_frame :: "env \<Rightarrow> request \<Rightarrow> checkout \<Rightarrow> (string \<times> string \<times> string) list \<Rightarrow> bool" where
  "status_frame E req co repos =
     (Auth_check_acl E (auth req) Perm_Clusters (p_cluster (params req)) True = Inr True \<and>
      (case ConfigDB_get_config E App_Cluster (p_cluster (params req)) of
         Inl e \<Rightarrow> False
       | Inr info \<Rightarrow>
           \<not> falsy info \<and>
           (case js_get info ''flux'' of
              Inl e \<Rightarrow> False
            | Inr flux \<Rightarrow> Checkout_clone E flux = Inr co)) \<and>
      co_list_manifests E co FLUX_NS ''GitRepository'' = Inr repos \<and>
      listed_present E co repos \<and>
      co_dispose E co = Inr ())"

section \<open>Example collaborators\<close>

text \<open>
  A small world to run the handlers in: the principal \<open>admin\<close> may do everything, the
  registry knows the cluster \<open>c1\<close>, the Git service refuses the repository name
  \<open>edge/taken\<close> with status 409, answers 201 Created for \<open>edge/fresh\<close> and 200 for
  every other name, and a checkout holds the documents \<open>docs\<close>, keyed by kind and
  name, in the flux-system namespace.
\<close>

definition demo_read :: "((string \<times> string) \<times> json) list \<Rightarrow> string \<Rightarrow> string \<Rightarrow> json \<Rightarrow> exn + json" where
  "demo_read docs ns kind name =
     (case name of
        JStr n \<Rightarrow>
          if ns = FLUX_NS
          then (case map_of docs (kind, n) of Some d \<Rightarrow> Inr d | None \<Rightarrow> Inr JUndefined)
          else Inr JUndefined
      | _ \<Rightarrow> Inr JUndefined)"

definition demo_list :: "((string \<times> string) \<times> json) list \<Rightarrow> string \<Rightarrow> string \<Rightarrow> (string \<times> string \<times> string) list" where
  "demo_list docs ns kind =
     (if ns = FLUX_NS
      then map (\<lambda>kn. (ns, fst kn, snd kn)) (filter (\<lambda>kn. fst kn = kind) (map fst docs))
      else [])"

definition demo_env :: "((string \<times> string) \<times> json) list \<Rightarrow> env" where
  "demo_env docs =
     \<lparr>Auth_check_acl = (\<lambda>principal p r exact. Inr (principal = ''admin'')),
      ConfigDB_get_config = (\<lambda>a c.
        Inr (if a = App_Cluster \<and> c = ''c1''
             then JObj [(''flux'', JStr ''https://git.example/edge/cell1'')]
             else JUndefined)),
      ConfigDB_create_object = (\<lambda>k. Inr ''uuid-1''),
      ConfigDB_put_config = (\<lambda>a u v. Inr ()),
      Discovery_service_url = (\<lambda>s. Inr ''https://git.example/''),
      fplus_fetch = (\<lambda>s m u.
        Inr \<lparr>fr_status = (if u = ''/git/edge/taken'' then 409
                          else if u = ''/git/edge/fresh'' then 201 else 200),
             fr_json = Inr (JObj [(''url'', JStr (''https://git.example'' @ u))])\<rparr>),
      Checkout_clone = (\<lambda>u. Inr 7),
      Checkout_init = (\<lambda>u. Inr 8),
      co_list_manifests = (\<lambda>co ns kind. Inr (demo_list docs ns kind)),
      co_read_manifest = (\<lambda>co. demo_read docs),
      co_write_file = (\<lambda>co f c. Inr ()),
      co_write_manifest = (\<lambda>co d. Inr ()),
      co_commit = (\<lambda>co m. Inr ()),
      co_push = (\<lambda>co. Inr ()),
      co_dispose = (\<lambda>co. Inr ()),
      secrets_seal_secret = (\<lambda>opts. Inr (if so_dryrun opts then 200 else 201)),
      secrets_delete_secret = (\<lambda>opts. Inr (if so_dryrun opts then 200 else 204)),
      manifests_README = ''# Edge cluster'',
      manifests_git_repo = (\<lambda>ns name url.
        JObj [(''kind'', JStr ''GitRepository''), (''namespace'', JStr ns),
              (''name'', JStr name), (''url'', JStr url)]),
      manifests_flux_kust = (\<lambda>ns name source.
        JObj [(''kind'', JStr ''Kustomization''), (''namespace'', JStr ns),
              (''name'', JStr name), (''source'', JStr source)]),
      new_URL = (\<lambda>source base. Inr (base @ source)),
      repo_group = ''edge''\<rparr>"

text \<open>
  The request of the specification's scenario (cluster \<open>cell1\<close>, one source); the same
  record carries the route parameters and the query string of the other endpoints.
\<close>

definition demo_req :: request where
  "demo_req =
     \<lparr>auth = ''admin'',
      body = \<lparr>cs_name = ''cell1'', cs_namespace = None,
              cs_sources = Some [''org/repoA''], cs_kubeseal_cert = ''PEM''\<rparr>,
      params = \<lparr>p_cluster = ''c1'', p_namespace = ''flux-system'',
                p_name = ''creds-a'', p_key = ''password''\<rparr>,
      query = [(''dryrun'', ''false'')],
      content = ''s3cret''\<rparr>"

text \<open>A \<open>GitRepository\<close> document, with or without a secret reference.\<close>

definition gitrepo_doc :: "string \<Rightarrow> string option \<Rightarrow> json" where
  "gitrepo_doc url sref =
     JObj [(''kind'', JStr ''GitRepository''),
           (''spec'', JObj ((''url'', JStr url) #
              (case sref of
                 None \<Rightarrow> []
               | Some n \<Rightarrow> [(''secretRef'', JObj [(''name'', JStr n)])])))]"

text \<open>A \<open>SealedSecret\<close> document with the given encrypted data.\<close>

definition sealed_doc :: "(string \<times> json) list \<Rightarrow> json" where
  "sealed_doc enc =
     JObj [(''kind'', JStr ''SealedSecret''), (''spec'', JObj [(''encryptedData'', JObj enc)])]"

text \<open>
  Checkouts to scan. \<open>demo_docs\<close>: one source with a bearer token, one public source.
  \<open>docs_username_only\<close>: the secret has a \<open>username\<close> and no \<open>password\<close>.
  \<open>docs_no_spec\<close>: the \<open>SealedSecret\<close> document has no \<open>spec\<close>.
  \<open>docs_no_data\<close>: its \<open>spec\<close> has no \<open>encryptedData\<close>.
\<close>

definition demo_docs :: "((string \<times> string) \<times> json) list" where
  "demo_docs =
     [((''GitRepository'', ''org.repoA''),
         gitrepo_doc ''https://git.example/org/repoA'' (Some ''creds-a'')),
      ((''GitRepository'', ''public''), gitrepo_doc ''https://example.org/public'' None),
      ((''SealedSecret'', ''creds-a''), sealed_doc [(''bearerToken'', JStr ''x'')])]"

definition docs_username_only :: "((string \<times> string) \<times> json) list" where
  "docs_username_only =
     [((''GitRepository'', ''org.repoA''),
         gitrepo_doc ''https://git.example/org/repoA'' (Some ''creds-a'')),
      ((''SealedSecret'', ''creds-a''), sealed_doc [(''username'', JStr ''u'')])]"

definition docs_no_spec :: "((string \<times> string) \<times> json) list" where
  "docs_no_spec =
     [((''GitRepository'', ''org.repoA''),
         gitrepo_doc ''https://git.example/org/repoA'' (Some ''creds-a'')),
      ((''SealedSecret'', ''creds-a''), JObj [(''kind'', JStr ''SealedSecret'')])]"

definition docs_no_data :: "((string \<times> string) \<times> json) list" where
  "docs_no_data =
     [((''GitRepository'', ''org.repoA''),
         gitrepo_doc ''https://git.example/org/repoA'' (Some ''creds-a'')),
      ((''SealedSecret'', ''creds-a''),
         JObj [(''kind'', JStr ''SealedSecret''), (''spec'', JObj [])])]"

text \<open>
  \<open>docs_bad_manifest\<close>: the only \<open>GitRepository\<close> document has a string for its
  \<open>spec\<close>. \<open>docs_absent\<close>: the referenced secret is not in the checkout.
  \<open>docs_malformed_then_absent\<close> and \<open>docs_absent_then_malformed\<close>: two sources, one
  referencing a \<open>SealedSecret\<close> without a \<open>spec\<close> and one referencing a secret that is
  not there, listed in either order.
\<close>

definition docs_bad_manifest :: "((string \<times> string) \<times> json) list" where
  "docs_bad_manifest =
     [((''GitRepository'', ''org.repoA''),
         JObj [(''kind'', JStr ''GitRepository''), (''spec'', JStr ''garbage'')])]"

definition docs_absent :: "((string \<times> string) \<times> json) list" where
  "docs_absent =
     [((''GitRepository'', ''org.repoA''),
         gitrepo_doc ''https://git.example/org/repoA'' (Some ''creds-a''))]"

definition docs_malformed_then_absent :: "((string \<times> string) \<times> json) list" where
  "docs_malformed_then_absent =
     [((''GitRepository'', ''org.repoA''),
         gitrepo_doc ''https://git.example/org/repoA'' (Some ''creds-a'')),
      ((''GitRepository'', ''org.repoB''),
         gitrepo_doc ''https://git.example/org/repoB'' (Some ''creds-b'')),
      ((''SealedSecret'', ''creds-a''), JObj [(''kind'', JStr ''SealedSecret'')])]"

definition docs_absent_then_malformed :: "((string \<times> string) \<times> json) list" where
  "docs_absent_then_malformed =
     [((''GitRepository'', ''org.repoB''),
         gitrepo_doc ''https://git.example/org/repoB'' (Some ''creds-b'')),
      ((''GitRepository'', ''org.repoA''),
         gitrepo_doc ''https://git.example/org/repoA'' (Some ''creds-a'')),
      ((''SealedSecret'', ''creds-a''), JObj [(''kind'', JStr ''SealedSecret'')])]"

section \<open>Basic facts about sequencing\<close>

declare show_nat.simps [simp del]

lemma bnd_ret [simp]: "bnd (ret x) f = f x"
  by (simp add: bnd_def ret_def)

lemma bnd_throw [simp]: "bnd (throw e) f = throw e"
  by (simp add: bnd_def throw_def)

lemma bnd_lift_Inr [simp]: "bnd (lift (Inr x)) f = f x"
  by (simp add: bnd_def lift_def)

lemma bnd_lift_Inl [simp]: "bnd (lift (Inl e)) f = throw e"
  by (simp add: bnd_def lift_def throw_def)

lemma bnd_call_Inr [simp]: "bnd (call ev (Inr x)) f tr = f x (tr @ [ev])"
  by (simp add: bnd_def call_def)

lemma bnd_call_Inl [simp]: "bnd (call ev (Inl e)) f tr = (Inl e, tr @ [ev])"
  by (simp add: bnd_def call_def)

lemma call_apply [simp]: "call ev r tr = (r, tr @ [ev])"
  by (simp add: call_def)

lemma bnd_log [simp]: "bnd (log fmt args) f tr = f () (tr @ [Log fmt args])"
  by (simp add: log_def)

lemma log_apply [simp]: "log fmt args tr = (Inr (), tr @ [Log fmt args])"
  by (simp add: log_def)

lemma ret_apply [simp]: "ret x tr = (Inr x, tr)"
  by (simp add: ret_def)

lemma throw_apply [simp]: "throw e tr = (Inl e, tr)"
  by (simp add: throw_def)

lemma lift_apply [simp]: "lift r tr = (r, tr)"
  by (simp add: lift_def)

lemma has_creds_obj: "has_creds (JObj enc) = Inr (key_set_ok enc)"
  by (auto simp add: has_creds_def key_set_ok_def map_of_eq_None_iff simp del: not_None_eq split: bool.splits)

lemma has_creds_arr: "has_creds (JArr xs) = Inr False"
  by (simp add: has_creds_def)

lemma falsy_not_accepted: "falsy sealed \<Longrightarrow> cred_shape sealed = Malformed"
  by (cases sealed) (simp_all add: cred_shape_def)

lemma shape_accepted:
  "cred_shape sealed = Accepted \<Longrightarrow>
     \<exists>sp enc. js_get sealed ''spec'' = Inr sp \<and> js_get sp ''encryptedData'' = Inr enc \<and>
              has_creds enc = Inr True"
  by (cases sealed)
     (auto simp: cred_shape_def has_creds_obj
           split: json.splits option.splits if_splits)

lemma shape_missing:
  "cred_shape sealed = MissingKeys \<Longrightarrow>
     \<exists>sp enc. js_get sealed ''spec'' = Inr sp \<and> js_get sp ''encryptedData'' = Inr enc \<and>
              has_creds enc = Inr False"
  by (cases sealed)
     (auto simp: cred_shape_def has_creds_obj has_creds_arr
           split: json.splits option.splits if_splits)

lemma shape_malformed:
  "\<not> falsy sealed \<Longrightarrow> cred_shape sealed = Malformed \<Longrightarrow>
     \<exists>sp. js_get sealed ''spec'' = Inr sp \<and>
       ((\<exists>msg. js_get sp ''encryptedData'' = Inl (TypeError msg)) \<or>
        (\<exists>enc msg. js_get sp ''encryptedData'' = Inr enc \<and> has_creds enc = Inl (TypeError msg)))"
  by (cases sealed)
     (auto simp: cred_shape_def has_creds_def
           split: json.splits option.splits if_splits)

lemma gitr_secret_name_present:
  "\<not> nullish g \<Longrightarrow>
     \<exists>v. gitr_secret_name g = Inr v \<and> secret_ref g = (if nullish v then None else Some v)"
  by (cases g)
     (auto simp: gitr_secret_name_def split: json.splits option.splits if_splits)


lemma promise_all_names:
  "listed_present E co repos \<Longrightarrow>
   \<exists>names.
     promise_all
       (map (\<lambda>(ns, kind, name).
               case co_read_manifest E co ns kind (JStr name) of
                 Inl e \<Rightarrow> Inl e
               | Inr gitr \<Rightarrow> gitr_secret_name gitr) repos) = Inr names \<and>
     filter (\<lambda>i. \<not> nullish i) names = referenced E co repos"
proof (induction repos)
  case Nil
  then show ?case by (simp add: referenced_def)
next
  case (Cons m repos)
  obtain ns kind name where m: "m = (ns, kind, name)" by (cases m) auto
  from Cons.prems obtain g where g: "co_read_manifest E co ns kind (JStr name) = Inr g" "\<not> nullish g"
    and rest: "listed_present E co repos"
    by (auto simp: listed_present_def m split: sum.splits)
  from gitr_secret_name_present [OF g(2)] obtain v where
    v: "gitr_secret_name g = Inr v" "secret_ref g = (if nullish v then None else Some v)" by blast
  from Cons.IH [OF rest] obtain names where
    names: "promise_all
       (map (\<lambda>(ns, kind, name).
               case co_read_manifest E co ns kind (JStr name) of
                 Inl e \<Rightarrow> Inl e
               | Inr gitr \<Rightarrow> gitr_secret_name gitr) repos) = Inr names"
      "filter (\<lambda>i. \<not> nullish i) names = referenced E co repos" by blast
  show ?case
    using g v names by (simp add: m referenced_def)
qed

lemma read_secret_names_present:
  "listed_present E co repos \<Longrightarrow>
   read_secret_names E co repos tr =
     (Inr (referenced E co repos),
      tr @ map (\<lambda>(ns, kind, name). ReadManifest co ns kind (JStr name)) repos)"
  using promise_all_names [of E co repos] by (auto simp: read_secret_names_def)

lemma check_secrets_rejected:
  "co_read_manifest E co FLUX_NS ''SealedSecret'' n = Inl e \<Longrightarrow>
   check_secrets E co (n # rest) tr = (Inl e, tr @ [ReadManifest co FLUX_NS ''SealedSecret'' n])"
  by simp

lemma check_secrets_absent:
  "co_read_manifest E co FLUX_NS ''SealedSecret'' n = Inr sealed \<Longrightarrow> falsy sealed \<Longrightarrow>
   check_secrets E co (n # rest) tr =
     (Inr False, tr @ [ReadManifest co FLUX_NS ''SealedSecret'' n, Log ''No sealed secret %s'' [n]])"
  by simp

lemma check_secrets_accepted:
  "co_read_manifest E co FLUX_NS ''SealedSecret'' n = Inr sealed \<Longrightarrow>
   cred_shape sealed = Accepted \<Longrightarrow>
   check_secrets E co (n # rest) tr =
     check_secrets E co rest (tr @ [ReadManifest co FLUX_NS ''SealedSecret'' n])"
  using shape_accepted [of sealed] falsy_not_accepted [of sealed] by auto

lemma check_secrets_missing:
  "co_read_manifest E co FLUX_NS ''SealedSecret'' n = Inr sealed \<Longrightarrow>
   cred_shape sealed = MissingKeys \<Longrightarrow>
   \<exists>keys. check_secrets E co (n # rest) tr =
     (Inr False, tr @ [ReadManifest co FLUX_NS ''SealedSecret'' n,
                       Log ''Missing keys in secret %s, we have: %s'' [n, JStr keys]])"
  using shape_missing [of sealed] falsy_not_accepted [of sealed] by auto

lemma check_secrets_malformed:
  "co_read_manifest E co FLUX_NS ''SealedSecret'' n = Inr sealed \<Longrightarrow>
   \<not> falsy sealed \<Longrightarrow> cred_shape sealed = Malformed \<Longrightarrow>
   \<exists>msg. check_secrets E co (n # rest) tr =
     (Inl (TypeError msg), tr @ [ReadManifest co FLUX_NS ''SealedSecret'' n])"
  using shape_malformed [of sealed] by auto

declare check_secrets.simps(2) [simp del]

lemma check_secrets_head:
  "\<not> matched E co n \<Longrightarrow> fst (check_secrets E co (n # rest) tr) \<noteq> Inr True"
proof (cases "co_read_manifest E co FLUX_NS ''SealedSecret'' n")
  case (Inl e)
  then show ?thesis by (simp add: check_secrets_rejected)
next
  case (Inr sealed)
  assume nm: "\<not> matched E co n"
  show ?thesis
  proof (cases "falsy sealed")
    case True
    then show ?thesis using Inr by (simp add: check_secrets_absent)
  next
    case False
    from nm Inr have "cred_shape sealed \<noteq> Accepted" by (simp add: matched_def)
    then consider "cred_shape sealed = MissingKeys" | "cred_shape sealed = Malformed"
      by (cases "cred_shape sealed") auto
    then show ?thesis
    proof cases
      case 1
      from check_secrets_missing [OF Inr 1, of rest tr] show ?thesis by auto
    next
      case 2
      from check_secrets_malformed [OF Inr False 2, of rest tr] show ?thesis by auto
    qed
  qed
qed

lemma check_secrets_true_iff:
  "fst (check_secrets E co names tr) = Inr True \<longleftrightarrow> list_all (matched E co) names"
proof (induction names arbitrary: tr)
  case Nil
  then show ?case by simp
next
  case (Cons n names)
  show ?case
  proof (cases "matched E co n")
    case True
    then obtain sealed where s: "co_read_manifest E co FLUX_NS ''SealedSecret'' n = Inr sealed"
        "cred_shape sealed = Accepted"
      by (auto simp: matched_def split: sum.splits)
    show ?thesis
      using Cons.IH [of "tr @ [ReadManifest co FLUX_NS ''SealedSecret'' n]"] True
      by (simp only: check_secrets_accepted [OF s] list.pred_inject) simp
  next
    case False
    then show ?thesis using check_secrets_head [OF False] by simp
  qed
qed

section \<open>The readiness scan\<close>

lemma cluster_has_git_creds_present:
  "co_list_manifests E co FLUX_NS ''GitRepository'' = Inr repos \<Longrightarrow>
   listed_present E co repos \<Longrightarrow>
   cluster_has_git_creds E co tr =
     check_secrets E co (referenced E co repos)
       (tr @ ListManifests co FLUX_NS ''GitRepository'' #
          map (\<lambda>(ns, kind, name). ReadManifest co ns kind (JStr name)) repos)"
  by (simp add: cluster_has_git_creds_def bnd_def read_secret_names_present)

lemma cluster_status_frame:
  assumes "status_frame E req co repos"
  shows "\<exists>tr0. cluster_status E req tr =
     (case check_secrets E co (referenced E co repos) tr0 of
        (Inl e, tr') \<Rightarrow> (Inl e, tr')
      | (Inr ready, tr') \<Rightarrow>
          (Inr \<lparr>status = 200, payload = Some (JObj [(''ready'', JBool ready)])\<rparr>,
           tr' @ [Dispose co]))"
proof -
  from assms obtain info flux where
    f: "Auth_check_acl E (auth req) Perm_Clusters (p_cluster (params req)) True = Inr True"
       "ConfigDB_get_config E App_Cluster (p_cluster (params req)) = Inr info"
       "\<not> falsy info" "js_get info ''flux'' = Inr flux" "Checkout_clone E flux = Inr co"
       "co_list_manifests E co FLUX_NS ''GitRepository'' = Inr repos"
       "listed_present E co repos" "co_dispose E co = Inr ()"
    by (auto simp: status_frame_def split: sum.splits)
  have "cluster_status E req tr =
     (case check_secrets E co (referenced E co repos)
             (tr @ CheckAcl (auth req) Perm_Clusters (p_cluster (params req)) True #
                   GetConfig App_Cluster (p_cluster (params req)) #
                   CheckoutClone flux #
                   ListManifests co FLUX_NS ''GitRepository'' #
                   map (\<lambda>(ns, kind, name). ReadManifest co ns kind (JStr name)) repos) of
        (Inl e, tr') \<Rightarrow> (Inl e, tr')
      | (Inr ready, tr') \<Rightarrow>
          (Inr \<lparr>status = 200, payload = Some (JObj [(''ready'', JBool ready)])\<rparr>,
           tr' @ [Dispose co]))"
    using f(1-5,8)
    by (simp add: cluster_status_def Let_def bnd_def [of "cluster_has_git_creds E co"]
          cluster_has_git_creds_present [OF f(6,7)] split: prod.splits sum.splits)
  then show ?thesis by blast
qed

text \<open>
  C1. In the setting of a readiness scan (the call is authorized, the cluster is
  registered, its repository clones to a checkout that lists finitely many
  \<open>GitRepository\<close> manifests in flux-system and holds a document for each), the status
  endpoint answers 200 with \<open>ready = true\<close> if and only if every listed manifest that
  gives a \<open>spec.secretRef.name\<close> is matched by a \<open>SealedSecret\<close> of that name in
  flux-system whose \<open>spec.encryptedData\<close> has the key \<open>bearerToken\<close>, or both
  \<open>username\<close> and \<open>password\<close>. Manifests without a secret reference are discarded:
  readiness depends on the referenced names only, and when there are none (in
  particular with zero manifests) the answer is \<open>ready = true\<close>.
\<close>

theorem cluster_status_ready_iff:
  assumes "status_frame E req co repos"
  shows "(fst (routes E GET_cluster_status req tr) =
            Sent \<lparr>status = 200, payload = Some (JObj [(''ready'', JBool True)])\<rparr>
          \<longleftrightarrow> spec_ready E co repos) \<and>
         (referenced E co repos = [] \<longrightarrow>
            fst (routes E GET_cluster_status req tr) =
              Sent \<lparr>status = 200, payload = Some (JObj [(''ready'', JBool True)])\<rparr>)"
proof -
  from cluster_status_frame [OF assms, of tr] obtain tr0 where
    cs: "cluster_status E req tr =
     (case check_secrets E co (referenced E co repos) tr0 of
        (Inl e, tr') \<Rightarrow> (Inl e, tr')
      | (Inr ready, tr') \<Rightarrow>
          (Inr \<lparr>status = 200, payload = Some (JObj [(''ready'', JBool ready)])\<rparr>,
           tr' @ [Dispose co]))" by blast
  obtain r tr2 where r: "check_secrets E co (referenced E co repos) tr0 = (r, tr2)"
    by (cases "check_secrets E co (referenced E co repos) tr0") auto
  from check_secrets_true_iff [of E co "referenced E co repos" tr0] r
  have iff: "r = Inr True \<longleftrightarrow> spec_ready E co repos" by (simp add: spec_ready_def)
  have out: "fst (routes E GET_cluster_status req tr) =
      (case r of Inl e \<Rightarrow> Next e
       | Inr ready \<Rightarrow> Sent \<lparr>status = 200, payload = Some (JObj [(''ready'', JBool ready)])\<rparr>)"
    using r by (simp add: cs wrap_def split: sum.splits)
  have "fst (routes E GET_cluster_status req tr) =
            Sent \<lparr>status = 200, payload = Some (JObj [(''ready'', JBool True)])\<rparr>
          \<longleftrightarrow> spec_ready E co repos"
    unfolding out using iff by (cases r) auto
  moreover have "referenced E co repos = [] \<longrightarrow> spec_ready E co repos"
    by (simp add: spec_ready_def)
  ultimately show ?thesis by blast
qed

lemma demo_frame:
  "status_frame (demo_env demo_docs) demo_req 7
     [(FLUX_NS, ''GitRepository'', ''org.repoA''), (FLUX_NS, ''GitRepository'', ''public'')]"
  by (simp add: status_frame_def demo_env_def demo_req_def demo_docs_def demo_list_def
        demo_read_def listed_present_def gitrepo_doc_def sealed_doc_def FLUX_NS_def)

theorem cluster_status_ready_iff_witness:
  "status_frame (demo_env demo_docs) demo_req 7
     [(FLUX_NS, ''GitRepository'', ''org.repoA''), (FLUX_NS, ''GitRepository'', ''public'')] \<and>
   spec_ready (demo_env demo_docs) 7
     [(FLUX_NS, ''GitRepository'', ''org.repoA''), (FLUX_NS, ''GitRepository'', ''public'')] \<and>
   fst (routes (demo_env demo_docs) GET_cluster_status demo_req []) =
     Sent \<lparr>status = 200, payload = Some (JObj [(''ready'', JBool True)])\<rparr>"
  using cluster_status_ready_iff [OF demo_frame, of "[]"] demo_frame
  by (simp add: spec_ready_def referenced_def matched_def cred_shape_def key_set_ok_def
        demo_env_def demo_docs_def demo_read_def gitrepo_doc_def sealed_doc_def FLUX_NS_def)

section \<open>Malformed manifests and secrets\<close>

text \<open>
  As stated, C4 fails in both halves. A \<open>SealedSecret\<close> document without a \<open>spec\<close>
  makes the scan raise a TypeError, which \<open>wrap\<close> hands to \<open>next\<close>: no response is
  sent. A \<open>GitRepository\<close> document whose \<open>spec\<close> is a string is not treated as "not
  ready": it is discarded, and the cluster is reported ready.
\<close>

theorem malformed_data_counterexample:
  "fst (routes (demo_env docs_no_spec) GET_cluster_status demo_req []) =
     Next (TypeError ''Cannot read properties of undefined: encryptedData'') \<and>
   fst (routes (demo_env docs_bad_manifest) GET_cluster_status demo_req []) =
     Sent \<lparr>status = 200, payload = Some (JObj [(''ready'', JBool True)])\<rparr>"
  by code_simp

text \<open>
  A document whose \<open>spec\<close> is not an object gives no secret name, and reading the name
  from it raises nothing.
\<close>

lemma secret_ref_malformed:
  "(\<forall>sp. map_of kvs ''spec'' \<noteq> Some (JObj sp)) \<Longrightarrow>
   secret_ref (JObj kvs) = None \<and> gitr_secret_name (JObj kvs) = Inr JUndefined"
  by (auto simp: gitr_secret_name_def split: option.splits json.splits)

text \<open>
  The loop over the referenced secrets stops at the first one that is not matched, and
  that one decides.
\<close>

lemma check_secrets_verdict:
  "case List.find (\<lambda>n. \<not> matched E co n) names of
     None \<Rightarrow> fst (check_secrets E co names tr) = Inr True
   | Some sname \<Rightarrow>
       (case co_read_manifest E co FLUX_NS ''SealedSecret'' sname of
          Inl e \<Rightarrow> fst (check_secrets E co names tr) = Inl e
        | Inr sealed \<Rightarrow>
            if falsy sealed \<or> cred_shape sealed = MissingKeys
            then fst (check_secrets E co names tr) = Inr False
            else (\<exists>msg. fst (check_secrets E co names tr) = Inl (TypeError msg)))"
proof (induction names arbitrary: tr)
  case Nil
  show ?case by simp
next
  case (Cons n names)
  show ?case
  proof (cases "matched E co n")
    case True
    then obtain sealed where s: "co_read_manifest E co FLUX_NS ''SealedSecret'' n = Inr sealed"
        "cred_shape sealed = Accepted"
      by (auto simp: matched_def split: sum.splits)
    have eq: "check_secrets E co (n # names) tr =
        check_secrets E co names (tr @ [ReadManifest co FLUX_NS ''SealedSecret'' n])"
      by (rule check_secrets_accepted [OF s])
    have f: "List.find (\<lambda>n. \<not> matched E co n) (n # names) =
        List.find (\<lambda>n. \<not> matched E co n) names"
      using True by simp
    show ?thesis unfolding f eq by (rule Cons.IH)
  next
    case False
    show ?thesis
    proof (cases "co_read_manifest E co FLUX_NS ''SealedSecret'' n")
      case (Inl e)
      then show ?thesis using False by (simp add: check_secrets_rejected)
    next
      case (Inr sealed)
      show ?thesis
      proof (cases "falsy sealed")
        case True
        then show ?thesis using False Inr by (simp add: check_secrets_absent)
      next
        case nf: False
        from False Inr have "cred_shape sealed \<noteq> Accepted" by (simp add: matched_def)
        then consider "cred_shape sealed = MissingKeys" | "cred_shape sealed = Malformed"
          by (cases "cred_shape sealed") auto
        then show ?thesis
        proof cases
          case 1
          from check_secrets_missing [OF Inr 1, of names tr] show ?thesis
            using False Inr 1 by auto
        next
          case 2
          from check_secrets_malformed [OF Inr nf 2, of names tr] show ?thesis
            using False Inr nf 2 by auto
        qed
      qed
    qed
  qed
qed

text \<open>
  C4, amended. In the setting of a readiness scan, the listed \<open>GitRepository\<close>
  documents that give no \<open>spec.secretRef.name\<close>, malformed ones included, are
  discarded: only the referenced names count. The referenced secrets are examined in
  listing order, and the first one that is not matched decides the outcome; when all
  are matched the endpoint answers 200 with \<open>ready = true\<close>. If the checkout has no
  \<open>SealedSecret\<close> of that first name, or has one whose \<open>spec.encryptedData\<close> is an
  object (or array) without the accepted keys, the endpoint answers 200 with
  \<open>ready = false\<close>. If the document is there but malformed (no \<open>spec\<close>, or
  \<open>spec.encryptedData\<close> is not an object), the scan raises a TypeError that propagates
  to the error handler; if reading it is rejected, the rejection propagates.
\<close>

theorem scan_outcome:
  assumes "status_frame E req co repos"
  shows "case List.find (\<lambda>n. \<not> matched E co n) (referenced E co repos) of
     None \<Rightarrow>
       fst (routes E GET_cluster_status req tr) =
         Sent \<lparr>status = 200, payload = Some (JObj [(''ready'', JBool True)])\<rparr>
   | Some sname \<Rightarrow>
       (case co_read_manifest E co FLUX_NS ''SealedSecret'' sname of
          Inl e \<Rightarrow> fst (routes E GET_cluster_status req tr) = Next e
        | Inr sealed \<Rightarrow>
            if falsy sealed \<or> cred_shape sealed = MissingKeys
            then fst (routes E GET_cluster_status req tr) =
                   Sent \<lparr>status = 200, payload = Some (JObj [(''ready'', JBool False)])\<rparr>
            else (\<exists>msg. fst (routes E GET_cluster_status req tr) = Next (TypeError msg)))"
proof -
  from cluster_status_frame [OF assms, of tr] obtain tr0 where
    cs: "cluster_status E req tr =
     (case check_secrets E co (referenced E co repos) tr0 of
        (Inl e, tr') \<Rightarrow> (Inl e, tr')
      | (Inr ready, tr') \<Rightarrow>
          (Inr \<lparr>status = 200, payload = Some (JObj [(''ready'', JBool ready)])\<rparr>,
           tr' @ [Dispose co]))" by blast
  have out: "fst (routes E GET_cluster_status req tr) =
      (case fst (check_secrets E co (referenced E co repos) tr0) of
         Inl e \<Rightarrow> Next e
       | Inr ready \<Rightarrow> Sent \<lparr>status = 200, payload = Some (JObj [(''ready'', JBool ready)])\<rparr>)"
    by (simp add: cs wrap_def split: sum.splits prod.splits)
  show ?thesis
    unfolding out
    using check_secrets_verdict [of E co "referenced E co repos" tr0]
    by (auto split: option.splits sum.splits if_splits)
qed

lemma frame_username_only:
  "status_frame (demo_env docs_username_only) demo_req 7 [(FLUX_NS, ''GitRepository'', ''org.repoA'')]"
  by (simp add: status_frame_def demo_env_def demo_req_def docs_username_only_def demo_list_def
        demo_read_def listed_present_def gitrepo_doc_def sealed_doc_def FLUX_NS_def)

lemma frame_no_data:
  "status_frame (demo_env docs_no_data) demo_req 7 [(FLUX_NS, ''GitRepository'', ''org.repoA'')]"
  by (simp add: status_frame_def demo_env_def demo_req_def docs_no_data_def demo_list_def
        demo_read_def listed_present_def gitrepo_doc_def sealed_doc_def FLUX_NS_def)

lemma frame_bad_manifest:
  "status_frame (demo_env docs_bad_manifest) demo_req 7
     [(FLUX_NS, ''GitRepository'', ''org.repoA'')]"
  by (simp add: status_frame_def demo_env_def demo_req_def docs_bad_manifest_def demo_list_def
        demo_read_def listed_present_def gitrepo_doc_def FLUX_NS_def)

lemma frame_absent:
  "status_frame (demo_env docs_absent) demo_req 7
     [(FLUX_NS, ''GitRepository'', ''org.repoA'')]"
  by (simp add: status_frame_def demo_env_def demo_req_def docs_absent_def demo_list_def
        demo_read_def listed_present_def gitrepo_doc_def FLUX_NS_def)

lemma frame_malformed_then_absent:
  "status_frame (demo_env docs_malformed_then_absent) demo_req 7
     [(FLUX_NS, ''GitRepository'', ''org.repoA''), (FLUX_NS, ''GitRepository'', ''org.repoB'')]"
  by (simp add: status_frame_def demo_env_def demo_req_def docs_malformed_then_absent_def demo_list_def
        demo_read_def listed_present_def gitrepo_doc_def FLUX_NS_def)

lemma frame_absent_then_malformed:
  "status_frame (demo_env docs_absent_then_malformed) demo_req 7
     [(FLUX_NS, ''GitRepository'', ''org.repoB''), (FLUX_NS, ''GitRepository'', ''org.repoA'')]"
  by (simp add: status_frame_def demo_env_def demo_req_def docs_absent_then_malformed_def demo_list_def
        demo_read_def listed_present_def gitrepo_doc_def FLUX_NS_def)

text \<open>
  The theorem at six checkouts: a malformed manifest (ready), an absent secret and a
  secret with a \<open>username\<close> only (not ready), a secret without \<open>encryptedData\<close>
  (TypeError), and a malformed secret listed before and after an absent one (TypeError,
  and not ready).
\<close>

theorem scan_outcome_witness:
  "fst (routes (demo_env docs_bad_manifest) GET_cluster_status demo_req []) =
     Sent \<lparr>status = 200, payload = Some (JObj [(''ready'', JBool True)])\<rparr> \<and>
   fst (routes (demo_env docs_absent) GET_cluster_status demo_req []) =
     Sent \<lparr>status = 200, payload = Some (JObj [(''ready'', JBool False)])\<rparr> \<and>
   fst (routes (demo_env docs_username_only) GET_cluster_status demo_req []) =
     Sent \<lparr>status = 200, payload = Some (JObj [(''ready'', JBool False)])\<rparr> \<and>
   (\<exists>msg. fst (routes (demo_env docs_no_data) GET_cluster_status demo_req []) = Next (TypeError msg)) \<and>
   (\<exists>msg. fst (routes (demo_env docs_malformed_then_absent) GET_cluster_status demo_req []) = Next (TypeError msg)) \<and>
   fst (routes (demo_env docs_absent_then_malformed) GET_cluster_status demo_req []) =
     Sent \<lparr>status = 200, payload = Some (JObj [(''ready'', JBool False)])\<rparr>"
proof -
  have c0: "fst (routes (demo_env docs_bad_manifest) GET_cluster_status demo_req []) =
     Sent \<lparr>status = 200, payload = Some (JObj [(''ready'', JBool True)])\<rparr>"
    using scan_outcome [OF frame_bad_manifest, of "[]"]
    by (simp add: referenced_def matched_def cred_shape_def key_set_ok_def demo_env_def
          docs_bad_manifest_def demo_read_def gitrepo_doc_def sealed_doc_def FLUX_NS_def)
  have c1: "fst (routes (demo_env docs_absent) GET_cluster_status demo_req []) =
     Sent \<lparr>status = 200, payload = Some (JObj [(''ready'', JBool False)])\<rparr>"
    using scan_outcome [OF frame_absent, of "[]"]
    by (simp add: referenced_def matched_def cred_shape_def key_set_ok_def demo_env_def
          docs_absent_def demo_read_def gitrepo_doc_def sealed_doc_def FLUX_NS_def)
  have c2: "fst (routes (demo_env docs_username_only) GET_cluster_status demo_req []) =
     Sent \<lparr>status = 200, payload = Some (JObj [(''ready'', JBool False)])\<rparr>"
    using scan_outcome [OF frame_username_only, of "[]"]
    by (simp add: referenced_def matched_def cred_shape_def key_set_ok_def demo_env_def
          docs_username_only_def demo_read_def gitrepo_doc_def sealed_doc_def FLUX_NS_def)
  have c3: "(\<exists>msg. fst (routes (demo_env docs_no_data) GET_cluster_status demo_req []) = Next (TypeError msg))"
    using scan_outcome [OF frame_no_data, of "[]"]
    by (simp add: referenced_def matched_def cred_shape_def key_set_ok_def demo_env_def
          docs_no_data_def demo_read_def gitrepo_doc_def sealed_doc_def FLUX_NS_def)
  have c4: "(\<exists>msg. fst (routes (demo_env docs_malformed_then_absent) GET_cluster_status demo_req []) = Next (TypeError msg))"
    using scan_outcome [OF frame_malformed_then_absent, of "[]"]
    by (simp add: referenced_def matched_def cred_shape_def key_set_ok_def demo_env_def
          docs_malformed_then_absent_def demo_read_def gitrepo_doc_def sealed_doc_def FLUX_NS_def)
  have c5: "fst (routes (demo_env docs_absent_then_malformed) GET_cluster_status demo_req []) =
     Sent \<lparr>status = 200, payload = Some (JObj [(''ready'', JBool False)])\<rparr>"
    using scan_outcome [OF frame_absent_then_malformed, of "[]"]
    by (simp add: referenced_def matched_def cred_shape_def key_set_ok_def demo_env_def
          docs_absent_then_malformed_def demo_read_def gitrepo_doc_def sealed_doc_def FLUX_NS_def)
  from c0 c1 c2 c3 c4 c5 show ?thesis by (intro conjI)
qed

section \<open>Authorization\<close>

text \<open>
  C3. On each of the four endpoints, when the Access Control check the handler makes
  answers false, the response is 403 and the check is the only call the handler makes:
  no repository, registry, checkout or sealer operation is performed.
\<close>

theorem unauthorized_403:
  "(Auth_check_acl E (auth req) Perm_Clusters UUIDs_Null False = Inr False \<longrightarrow>
      routes E POST_cluster req tr =
        (Sent \<lparr>status = 403, payload = None\<rparr>,
         tr @ [CheckAcl (auth req) Perm_Clusters UUIDs_Null False])) \<and>
   (Auth_check_acl E (auth req) Perm_Clusters (p_cluster (params req)) True = Inr False \<longrightarrow>
      routes E GET_cluster_status req tr =
        (Sent \<lparr>status = 403, payload = None\<rparr>,
         tr @ [CheckAcl (auth req) Perm_Clusters (p_cluster (params req)) True])) \<and>
   (Auth_check_acl E (auth req) Perm_Secrets (p_cluster (params req)) True = Inr False \<longrightarrow>
      routes E PUT_cluster_secret req tr =
        (Sent \<lparr>status = 403, payload = None\<rparr>,
         tr @ [CheckAcl (auth req) Perm_Secrets (p_cluster (params req)) True]) \<and>
      routes E DELETE_cluster_secret req tr =
        (Sent \<lparr>status = 403, payload = None\<rparr>,
         tr @ [CheckAcl (auth req) Perm_Secrets (p_cluster (params req)) True]))"
  by (simp add: create_cluster_def cluster_status_def seal_secret_def delete_sealed_secret_def
        Let_def wrap_def)

theorem unauthorized_403_witness:
  "Auth_check_acl (demo_env demo_docs) ''guest'' Perm_Clusters UUIDs_Null False = Inr False \<and>
   Auth_check_acl (demo_env demo_docs) ''guest'' Perm_Clusters ''c1'' True = Inr False \<and>
   Auth_check_acl (demo_env demo_docs) ''guest'' Perm_Secrets ''c1'' True = Inr False \<and>
   routes (demo_env demo_docs) POST_cluster (demo_req\<lparr>auth := ''guest''\<rparr>) [] =
     (Sent \<lparr>status = 403, payload = None\<rparr>,
      [CheckAcl ''guest'' Perm_Clusters UUIDs_Null False]) \<and>
   routes (demo_env demo_docs) GET_cluster_status (demo_req\<lparr>auth := ''guest''\<rparr>) [] =
     (Sent \<lparr>status = 403, payload = None\<rparr>,
      [CheckAcl ''guest'' Perm_Clusters ''c1'' True]) \<and>
   routes (demo_env demo_docs) PUT_cluster_secret (demo_req\<lparr>auth := ''guest''\<rparr>) [] =
     (Sent \<lparr>status = 403, payload = None\<rparr>,
      [CheckAcl ''guest'' Perm_Secrets ''c1'' True]) \<and>
   routes (demo_env demo_docs) DELETE_cluster_secret (demo_req\<lparr>auth := ''guest''\<rparr>) [] =
     (Sent \<lparr>status = 403, payload = None\<rparr>,
      [CheckAcl ''guest'' Perm_Secrets ''c1'' True])"
  using unauthorized_403 [of "demo_env demo_docs" "demo_req\<lparr>auth := ''guest''\<rparr>" "[]"]
  by (simp add: demo_env_def demo_req_def)

section \<open>The status endpoint only reads\<close>

lemma emitsI:
  "(\<And>tr. m tr = (r, tr @ evs)) \<Longrightarrow> list_all P evs \<Longrightarrow> emits P m"
proof -
  assume a: "\<And>tr. m tr = (r, tr @ evs)" and b: "list_all P evs"
  have "m [] = (r, evs)" using a [of "[]"] by simp
  then show ?thesis using a b by (simp add: emits_def)
qed

lemma emits_ret: "emits P (ret x)"
  by (rule emitsI [where evs = "[]"]) simp_all

lemma emits_lift: "emits P (lift r)"
  by (rule emitsI [where evs = "[]"]) simp_all

lemma emits_call: "P ev \<Longrightarrow> emits P (call ev r)"
  by (rule emitsI [where evs = "[ev]"]) simp_all

lemma emits_log: "P (Log fmt args) \<Longrightarrow> emits P (log fmt args)"
  by (simp add: log_def emits_call)

lemma emits_bnd:
  assumes m: "emits P m" and f: "\<And>x. emits P (f x)"
  shows "emits P (bnd m f)"
proof -
  obtain r evs where m0: "m [] = (r, evs)" by (cases "m []") auto
  from m m0 have mt: "\<And>tr. m tr = (r, tr @ evs)" and pe: "list_all P evs"
    by (simp_all add: emits_def)
  show ?thesis
  proof (cases r)
    case (Inl e)
    have "\<And>tr. bnd m f tr = (Inl e, tr @ evs)" by (simp add: bnd_def mt Inl)
    then show ?thesis using pe by (rule emitsI)
  next
    case (Inr x)
    obtain r2 evs2 where f0: "f x [] = (r2, evs2)" by (cases "f x []") auto
    from f [of x] f0 have ft: "\<And>tr. f x tr = (r2, tr @ evs2)" and pe2: "list_all P evs2"
      by (simp_all add: emits_def)
    have "\<And>tr. bnd m f tr = (r2, tr @ (evs @ evs2))" by (simp add: bnd_def mt Inr ft)
    moreover have "list_all P (evs @ evs2)" using pe pe2 by simp
    ultimately show ?thesis by (rule emitsI)
  qed
qed

lemma emits_check_secrets:
  assumes "\<And>n. P (ReadManifest co FLUX_NS ''SealedSecret'' n)" and "\<And>fmt args. P (Log fmt args)"
  shows "emits P (check_secrets E co names)"
proof (induction names)
  case Nil
  show ?case unfolding check_secrets.simps by (rule emits_ret)
next
  case (Cons n names)
  show ?case
    unfolding check_secrets.simps
    by (intro emits_bnd emits_call emits_log emits_lift emits_ret assms Cons.IH
              if_split [where P = "emits P", THEN iffD2] conjI impI)
qed

lemma emits_read_secret_names:
  assumes "\<And>ns kind name. P (ReadManifest co ns kind name)"
  shows "emits P (read_secret_names E co repos)"
proof (rule emitsI)
  show "\<And>tr. read_secret_names E co repos tr =
          (case promise_all
                (map (\<lambda>(ns, kind, name).
                        case co_read_manifest E co ns kind (JStr name) of
                          Inl e \<Rightarrow> Inl e
                        | Inr gitr \<Rightarrow> gitr_secret_name gitr) repos) of
           Inl e \<Rightarrow> Inl e
         | Inr names \<Rightarrow> Inr (filter (\<lambda>i. \<not> nullish i) names),
           tr @ map (\<lambda>(ns, kind, name). ReadManifest co ns kind (JStr name)) repos)"
    by (simp add: read_secret_names_def)
  show "list_all P (map (\<lambda>(ns, kind, name). ReadManifest co ns kind (JStr name)) repos)"
    using assms by (induction repos) auto
qed

lemma emits_cluster_has_git_creds:
  assumes "\<And>ns kind name. P (ReadManifest co ns kind name)" and "\<And>fmt args. P (Log fmt args)"
    and "\<And>ns kind. P (ListManifests co ns kind)"
  shows "emits P (cluster_has_git_creds E co)"
  unfolding cluster_has_git_creds_def
  by (intro emits_bnd emits_call emits_check_secrets emits_read_secret_names assms)

lemma emits_cluster_status: "emits (\<lambda>ev. \<not> is_write ev) (cluster_status E req)"
  unfolding cluster_status_def Let_def
  by (intro emits_bnd emits_call emits_lift emits_ret emits_cluster_has_git_creds
            if_split [where P = "emits (\<lambda>ev. \<not> is_write ev)", THEN iffD2] conjI impI)
     simp_all

text \<open>
  C9. A status call appends to the call log no write to a repository, to the registry
  or to a sealed secret (it checks the ACL, looks up the config, clones, lists, reads,
  disposes and logs), and its outcome does not depend on the calls made before it: with
  the collaborators answering as before (no intervening mutation), a second call right
  after the first has the same outcome, hence the same \<open>ready\<close> value.
\<close>

theorem cluster_status_pure_read:
  "(\<exists>evs. snd (routes E GET_cluster_status req tr) = tr @ evs \<and>
          list_all (\<lambda>ev. \<not> is_write ev) evs) \<and>
   fst (routes E GET_cluster_status req (snd (routes E GET_cluster_status req tr))) =
     fst (routes E GET_cluster_status req tr)"
proof -
  obtain r evs where m0: "cluster_status E req [] = (r, evs)"
    by (cases "cluster_status E req []") auto
  from emits_cluster_status [of E req] m0
  have mt: "\<And>tr. cluster_status E req tr = (r, tr @ evs)"
    and pe: "list_all (\<lambda>ev. \<not> is_write ev) evs"
    by (simp_all add: emits_def)
  have rt: "\<And>tr. routes E GET_cluster_status req tr =
      ((case r of Inl e \<Rightarrow> Next e | Inr res \<Rightarrow> Sent res), tr @ evs)"
    by (simp add: wrap_def mt split: sum.splits)
  show ?thesis
    unfolding rt using pe by simp
qed

section \<open>Disposal of the checkout\<close>

text \<open>
  In the setting of a readiness scan, the status handler disposes of the checkout once
  when the scan returns, and not at all when the scan throws.
\<close>

lemma cluster_status_frame_events:
  assumes "status_frame E req co repos"
  shows "\<exists>pre. Dispose co \<notin> set pre \<and> cluster_status E req tr =
     (case check_secrets E co (referenced E co repos) (tr @ pre) of
        (Inl e, tr') \<Rightarrow> (Inl e, tr')
      | (Inr ready, tr') \<Rightarrow>
          (Inr \<lparr>status = 200, payload = Some (JObj [(''ready'', JBool ready)])\<rparr>,
           tr' @ [Dispose co]))"
proof -
  from assms obtain info flux where
    f: "Auth_check_acl E (auth req) Perm_Clusters (p_cluster (params req)) True = Inr True"
       "ConfigDB_get_config E App_Cluster (p_cluster (params req)) = Inr info"
       "\<not> falsy info" "js_get info ''flux'' = Inr flux" "Checkout_clone E flux = Inr co"
       "co_list_manifests E co FLUX_NS ''GitRepository'' = Inr repos"
       "listed_present E co repos" "co_dispose E co = Inr ()"
    by (auto simp: status_frame_def split: sum.splits)
  define pre where "pre = CheckAcl (auth req) Perm_Clusters (p_cluster (params req)) True #
                   GetConfig App_Cluster (p_cluster (params req)) #
                   CheckoutClone flux #
                   ListManifests co FLUX_NS ''GitRepository'' #
                   map (\<lambda>(ns, kind, name). ReadManifest co ns kind (JStr name)) repos"
  have "cluster_status E req tr =
     (case check_secrets E co (referenced E co repos) (tr @ pre) of
        (Inl e, tr') \<Rightarrow> (Inl e, tr')
      | (Inr ready, tr') \<Rightarrow>
          (Inr \<lparr>status = 200, payload = Some (JObj [(''ready'', JBool ready)])\<rparr>,
           tr' @ [Dispose co]))"
    using f(1-5,8)
    by (simp add: cluster_status_def Let_def bnd_def [of "cluster_has_git_creds E co"]
          cluster_has_git_creds_present [OF f(6,7)] pre_def split: prod.splits sum.splits)
  moreover have "Dispose co \<notin> set pre" by (auto simp: pre_def)
  ultimately show ?thesis by blast
qed

lemma dispose_only_when_scan_returns:
  assumes "status_frame E req co repos"
  shows "\<exists>evs. snd (routes E GET_cluster_status req tr) = tr @ evs \<and>
           count_list evs (Dispose co) =
             (case fst (routes E GET_cluster_status req tr) of Sent r \<Rightarrow> 1 | Next e \<Rightarrow> 0)"
proof -
  from cluster_status_frame_events [OF assms, of tr] obtain pre where
    pre: "Dispose co \<notin> set pre"
    and cs: "cluster_status E req tr =
     (case check_secrets E co (referenced E co repos) (tr @ pre) of
        (Inl e, tr') \<Rightarrow> (Inl e, tr')
      | (Inr ready, tr') \<Rightarrow>
          (Inr \<lparr>status = 200, payload = Some (JObj [(''ready'', JBool ready)])\<rparr>,
           tr' @ [Dispose co]))" by blast
  have "emits (\<lambda>ev. ev \<noteq> Dispose co) (check_secrets E co (referenced E co repos))"
    by (rule emits_check_secrets) simp_all
  then have "check_secrets E co (referenced E co repos) (tr @ pre) =
      (fst (check_secrets E co (referenced E co repos) []),
       (tr @ pre) @ snd (check_secrets E co (referenced E co repos) []))"
    and "list_all (\<lambda>ev. ev \<noteq> Dispose co) (snd (check_secrets E co (referenced E co repos) []))"
    unfolding emits_def by blast+
  then obtain r evs where
    scan: "check_secrets E co (referenced E co repos) (tr @ pre) = (r, (tr @ pre) @ evs)"
    and evs: "list_all (\<lambda>ev. ev \<noteq> Dispose co) evs"
    by blast
  from evs have nd: "Dispose co \<notin> set evs" by (auto simp: list_all_iff)
  show ?thesis
  proof (cases r)
    case (Inl e)
    have "routes E GET_cluster_status req tr = (Next e, tr @ (pre @ evs))"
      by (simp add: wrap_def cs scan Inl)
    moreover have "count_list (pre @ evs) (Dispose co) = 0"
      using pre nd by (simp add: count_list_0_iff)
    ultimately show ?thesis by simp
  next
    case (Inr ready)
    have "routes E GET_cluster_status req tr =
        (Sent \<lparr>status = 200, payload = Some (JObj [(''ready'', JBool ready)])\<rparr>,
         tr @ (pre @ evs @ [Dispose co]))"
      by (simp add: wrap_def cs scan Inr)
    moreover have "count_list (pre @ evs @ [Dispose co]) (Dispose co) = 1"
      using pre nd by (simp add: count_list_0_iff)
    ultimately show ?thesis by simp
  qed
qed

text \<open>
  C5. The claim: a status call that acquires a checkout disposes of it exactly once on
  every exit path, also when the scan throws. The code does not meet it: the handler
  disposes of the checkout after the scan has returned, and there is no \<open>finally\<close>.
  Here the scan raises on a \<open>SealedSecret\<close> whose \<open>spec\<close> has no \<open>encryptedData\<close>:
  the checkout was cloned, and the call log ends without a \<open>Dispose\<close>.
\<close>

theorem status_throw_skips_dispose:
  "routes (demo_env docs_no_data) GET_cluster_status demo_req [] =
     (Next (TypeError ''Cannot use in operator to search for bearerToken''),
      [CheckAcl ''admin'' Perm_Clusters ''c1'' True,
       GetConfig App_Cluster ''c1'',
       CheckoutClone (JStr ''https://git.example/edge/cell1''),
       ListManifests 7 FLUX_NS ''GitRepository'',
       ReadManifest 7 FLUX_NS ''GitRepository'' (JStr ''org.repoA''),
       ReadManifest 7 FLUX_NS ''SealedSecret'' (JStr ''creds-a'')])"
  by code_simp

section \<open>The dry-run flag\<close>

text \<open>
  C10. On an authorized PUT or DELETE of a secret, the options handed to the Secret
  Sealer have \<open>dryrun\<close> true if and only if the query string has a parameter named
  \<open>dryrun\<close>, whatever its value: \<open>?dryrun=false\<close> enables it, and only leaving the
  parameter out disables it.
\<close>

theorem dryrun_by_presence:
  assumes "Auth_check_acl E (auth req) Perm_Secrets (p_cluster (params req)) True = Inr True"
  shows "(\<exists>opts. snd (routes E PUT_cluster_secret req tr) =
            tr @ [CheckAcl (auth req) Perm_Secrets (p_cluster (params req)) True, SealSecret opts] \<and>
            so_dryrun opts = (''dryrun'' \<in> fst ` set (query req))) \<and>
         (\<exists>opts. snd (routes E DELETE_cluster_secret req tr) =
            tr @ [CheckAcl (auth req) Perm_Secrets (p_cluster (params req)) True, DeleteSecret opts] \<and>
            so_dryrun opts = (''dryrun'' \<in> fst ` set (query req)))"
proof -
  have d: "dryrun_in (query req) = (''dryrun'' \<in> fst ` set (query req))"
    by (simp add: dryrun_in_def map_of_eq_None_iff del: not_None_eq)
  show ?thesis
    using assms
    by (auto simp: seal_secret_def delete_sealed_secret_def Let_def wrap_def bnd_def d
             split: sum.splits)
qed

theorem dryrun_by_presence_witness:
  "Auth_check_acl (demo_env []) ''admin'' Perm_Secrets ''c1'' True = Inr True \<and>
   snd (routes (demo_env []) PUT_cluster_secret demo_req []) =
     [CheckAcl ''admin'' Perm_Secrets ''c1'' True,
      SealSecret \<lparr>so_cluster = ''c1'', so_namespace = ''flux-system'', so_name = ''creds-a'',
                  so_key = ''password'', so_content = Some ''s3cret'', so_dryrun = True\<rparr>] \<and>
   snd (routes (demo_env []) DELETE_cluster_secret (demo_req\<lparr>query := []\<rparr>) []) =
     [CheckAcl ''admin'' Perm_Secrets ''c1'' True,
      DeleteSecret \<lparr>so_cluster = ''c1'', so_namespace = ''flux-system'', so_name = ''creds-a'',
                    so_key = ''password'', so_content = None, so_dryrun = False\<rparr>]"
proof -
  have a1: "Auth_check_acl (demo_env []) (auth demo_req) Perm_Secrets (p_cluster (params demo_req)) True = Inr True"
    by (simp add: demo_env_def demo_req_def)
  have a2: "Auth_check_acl (demo_env []) (auth (demo_req\<lparr>query := []\<rparr>)) Perm_Secrets
              (p_cluster (params (demo_req\<lparr>query := []\<rparr>))) True = Inr True"
    by (simp add: demo_env_def demo_req_def)
  show ?thesis
    using dryrun_by_presence [OF a1, of "[]"] dryrun_by_presence [OF a2, of "[]"]
    by (auto simp: demo_env_def demo_req_def seal_secret_def delete_sealed_secret_def Let_def
          wrap_def bnd_def dryrun_in_def)
qed

section \<open>The order of cluster creation\<close>

lemma effects_append [simp]: "effects (xs @ ys) = effects xs @ effects ys"
  by (simp add: effects_def)

lemma effects_Nil [simp]: "effects [] = []"
  by (simp add: effects_def)

lemma effects_Cons [simp]: "effects (ev # evs) = (if is_log ev then effects evs else ev # effects evs)"
  by (simp add: effects_def)

lemma within_ret: "within E lo hi (ret x)"
  by (simp add: within_def)

lemma within_throw: "within E lo hi (throw e)"
  by (simp add: within_def)

lemma within_lift: "within E lo hi (lift r)"
  by (simp add: within_def)

lemma within_log: "within E lo hi (log fmt args)"
  by (simp add: within_def)

lemma within_call:
  "lo \<le> stage ev \<Longrightarrow> stage ev \<le> hi \<Longrightarrow> failed E ev = isl r \<Longrightarrow> within E lo hi (call ev r)"
  by (cases "is_log ev") (simp_all add: within_def)

lemma within_bnd:
  assumes m: "within E lo j m" and f: "\<And>x. within E j hi (f x)" and lj: "lo \<le> j" and jh: "j \<le> hi"
  shows "within E lo hi (bnd m f)"
  unfolding within_def
proof
  fix tr
  from m obtain r evs where
    mt: "m tr = (r, tr @ evs)" and s1: "sorted (map stage (effects evs))"
    and b1: "list_all (\<lambda>ev. lo \<le> stage ev \<and> stage ev \<le> j) (effects evs)"
    and c1: "list_all (\<lambda>ev. \<not> failed E ev) (butlast (effects evs))"
    and d1: "isl r \<or> list_all (\<lambda>ev. \<not> failed E ev) (effects evs)"
    unfolding within_def by blast
  show "\<exists>r evs. bnd m f tr = (r, tr @ evs) \<and>
        sorted (map stage (effects evs)) \<and>
        list_all (\<lambda>ev. lo \<le> stage ev \<and> stage ev \<le> hi) (effects evs) \<and>
        list_all (\<lambda>ev. \<not> failed E ev) (butlast (effects evs)) \<and>
        (isl r \<or> list_all (\<lambda>ev. \<not> failed E ev) (effects evs))"
  proof (cases r)
    case (Inl e)
    have "bnd m f tr = (Inl e, tr @ evs)" by (simp add: bnd_def mt Inl)
    moreover have "list_all (\<lambda>ev. lo \<le> stage ev \<and> stage ev \<le> hi) (effects evs)"
      using b1 jh by (auto simp: list_all_iff)
    ultimately show ?thesis using s1 c1 by auto
  next
    case (Inr x)
    from d1 Inr have clean1: "list_all (\<lambda>ev. \<not> failed E ev) (effects evs)" by simp
    from f [of x] obtain r2 evs2 where
      ft: "f x (tr @ evs) = (r2, (tr @ evs) @ evs2)" and s2: "sorted (map stage (effects evs2))"
      and b2: "list_all (\<lambda>ev. j \<le> stage ev \<and> stage ev \<le> hi) (effects evs2)"
      and c2: "list_all (\<lambda>ev. \<not> failed E ev) (butlast (effects evs2))"
      and d2: "isl r2 \<or> list_all (\<lambda>ev. \<not> failed E ev) (effects evs2)"
      unfolding within_def by blast
    have run: "bnd m f tr = (r2, tr @ (evs @ evs2))" by (simp add: bnd_def mt Inr ft)
    have s: "sorted (map stage (effects (evs @ evs2)))"
      using s1 s2 b1 b2 by (fastforce simp: sorted_append list_all_iff)
    have b: "list_all (\<lambda>ev. lo \<le> stage ev \<and> stage ev \<le> hi) (effects (evs @ evs2))"
      using b1 b2 lj jh by (auto simp: list_all_iff)
    have c: "list_all (\<lambda>ev. \<not> failed E ev) (butlast (effects (evs @ evs2)))"
      using clean1 c1 c2 by (simp add: butlast_append)
    have d: "isl r2 \<or> list_all (\<lambda>ev. \<not> failed E ev) (effects (evs @ evs2))"
      using clean1 d2 by auto
    show ?thesis using run s b c d by blast
  qed
qed

lemma within_weaken:
  assumes m: "within E lo' hi' m" and lo: "lo \<le> lo'" and hi: "hi' \<le> hi"
  shows "within E lo hi m"
  unfolding within_def
proof
  fix tr
  from m obtain r evs where
    mt: "m tr = (r, tr @ evs)" and s1: "sorted (map stage (effects evs))"
    and b1: "list_all (\<lambda>ev. lo' \<le> stage ev \<and> stage ev \<le> hi') (effects evs)"
    and c1: "list_all (\<lambda>ev. \<not> failed E ev) (butlast (effects evs))"
    and d1: "isl r \<or> list_all (\<lambda>ev. \<not> failed E ev) (effects evs)"
    unfolding within_def by blast
  have "list_all (\<lambda>ev. lo \<le> stage ev \<and> stage ev \<le> hi) (effects evs)"
    using b1 lo hi by (auto simp: list_all_iff)
  then show "\<exists>r evs. m tr = (r, tr @ evs) \<and>
        sorted (map stage (effects evs)) \<and>
        list_all (\<lambda>ev. lo \<le> stage ev \<and> stage ev \<le> hi) (effects evs) \<and>
        list_all (\<lambda>ev. \<not> failed E ev) (butlast (effects evs)) \<and>
        (isl r \<or> list_all (\<lambda>ev. \<not> failed E ev) (effects evs))"
    using mt s1 c1 d1 by blast
qed

lemma within_bnd_call:
  "lo \<le> stage ev \<Longrightarrow> stage ev \<le> hi \<Longrightarrow> failed E ev = isl r \<Longrightarrow>
   (\<And>x. within E (stage ev) hi (f x)) \<Longrightarrow> within E lo hi (bnd (call ev r) f)"
  by (rule within_bnd [where j = "stage ev"]) (simp_all add: within_call)

lemma within_bnd_log:
  "(\<And>x. within E lo hi (f x)) \<Longrightarrow> lo \<le> hi \<Longrightarrow> within E lo hi (bnd (log fmt args) f)"
  by (rule within_bnd [where j = lo]) (simp_all add: within_log)

lemma within_bnd_lift:
  "(\<And>x. within E lo hi (f x)) \<Longrightarrow> lo \<le> hi \<Longrightarrow> within E lo hi (bnd (lift r) f)"
  by (rule within_bnd [where j = lo]) (simp_all add: within_lift)

lemma create_repo_run:
  "create_repo E name tr =
     (case fplus_fetch E Service_Git ''POST'' (''/git/'' @ repo_group E @ ''/'' @ name) of
        Inl e \<Rightarrow> Inl e
      | Inr res \<Rightarrow>
          if fr_status res \<noteq> 200
          then Inl (Thrown (''Git: can't create repo '' @ repo_group E @ ''/'' @ name @ '': '' @
                      show_nat (fr_status res)))
          else fr_json res,
      tr @ [Log ''Creating repo %s'' [JStr (repo_group E @ ''/'' @ name)],
            Fetch Service_Git ''POST'' (''/git/'' @ repo_group E @ ''/'' @ name)])"
  by (simp add: create_repo_def Let_def split: sum.splits)

lemma within_create_repo:
  "lo \<le> 1 \<Longrightarrow> 1 \<le> hi \<Longrightarrow> within E lo hi (create_repo E name)"
proof (rule within_weaken [where lo' = 1 and hi' = 1])
  show "within E 1 1 (create_repo E name)"
    unfolding within_def by (auto simp: create_repo_run split: sum.splits)
qed

lemma within_create_cluster_objects:
  "lo \<le> 2 \<Longrightarrow> 2 \<le> hi \<Longrightarrow> within E lo hi (create_cluster_objects E spec url)"
proof (rule within_weaken [where lo' = 2 and hi' = 2])
  show "within E 2 2 (create_cluster_objects E spec url)"
    unfolding create_cluster_objects_def Let_def
    by (intro within_bnd_call within_bnd_log within_ret) simp_all
qed

lemma within_write_sources: "within E 3 3 (write_sources E co git_base sources)"
proof (induction sources)
  case Nil
  show ?case unfolding write_sources.simps by (rule within_ret)
next
  case (Cons source rest)
  show ?case
    unfolding write_sources.simps Let_def
    by (intro within_bnd_call within_bnd_log within_bnd_lift) (simp_all add: Cons.IH)
qed

lemma within_setup_repo_links:
  "lo \<le> 3 \<Longrightarrow> 3 \<le> hi \<Longrightarrow> within E lo hi (setup_repo_links E co spec)"
proof (rule within_weaken [where lo' = 3 and hi' = 3])
  show "within E 3 3 (setup_repo_links E co spec)"
  proof (cases "cs_sources spec")
    case None
    then show ?thesis by (simp add: setup_repo_links_def within_ret)
  next
    case (Some sources)
    have "within E 3 3
       (bnd (call (ServiceUrl Service_Git) (Discovery_service_url E Service_Git)) (\<lambda>git_base.
        bnd (write_sealed_secret co (cs_kubeseal_cert spec)
               FLUX_NS ''op1flux-secrets'' ''username'' (''op1flux/'' @ cs_name spec)) (\<lambda>_.
        bnd (write_sources E co git_base sources) (\<lambda>_.
        call (Commit co ''Written flux source manifests.'')
          (co_commit E co ''Written flux source manifests.'')))))"
      unfolding write_sealed_secret_def
      by (intro within_bnd_call within_bnd [where j = 3 and m = "throw _"]
            within_bnd [where j = 3 and m = "write_sources _ _ _ _"]
            within_throw within_call)
         (simp_all add: within_write_sources)
    then show ?thesis by (simp add: setup_repo_links_def Some)
  qed
qed

lemma within_populate_cluster_repo:
  "lo \<le> 3 \<Longrightarrow> 4 \<le> hi \<Longrightarrow> within E lo hi (populate_cluster_repo E repo spec)"
proof (rule within_weaken [where lo' = 3 and hi' = 4])
  show "within E 3 4 (populate_cluster_repo E repo spec)"
    unfolding populate_cluster_repo_def
    by (intro within_bnd_call within_bnd_log within_bnd_lift within_log
          within_bnd [where j = 3 and m = "setup_repo_links _ _ _"])
       (simp_all add: within_setup_repo_links)
qed

lemma within_create_cluster: "within E 0 4 (create_cluster E req)"
  unfolding create_cluster_def Let_def
  by (intro within_bnd_call within_bnd_lift within_ret
        if_split [where P = "within E _ _", THEN iffD2] conjI impI
        within_bnd [where j = 1 and m = "create_repo _ _"]
        within_bnd [where j = 2 and m = "create_cluster_objects _ _ _"]
        within_bnd [where j = 4 and m = "populate_cluster_repo _ _ _"])
     (simp_all add: within_create_repo within_create_cluster_objects within_populate_cluster_repo)

lemma create_repo_ok:
  "create_repo E name tr = (Inr repo, tr') \<Longrightarrow>
   tr' = tr @ [Log ''Creating repo %s'' [JStr (repo_group E @ ''/'' @ name)],
               Fetch Service_Git ''POST'' (''/git/'' @ repo_group E @ ''/'' @ name)] \<and>
   (\<exists>res. fplus_fetch E Service_Git ''POST'' (''/git/'' @ repo_group E @ ''/'' @ name) = Inr res \<and>
          fr_status res = 200 \<and> fr_json res = Inr repo)"
  by (auto simp: create_repo_run split: sum.splits if_splits)

lemma create_cluster_objects_ok:
  "create_cluster_objects E spec url tr = (Inr uuid, tr') \<Longrightarrow>
   tr' = tr @ [CreateObject Class_Cluster,
               Log ''Created Edge Cluster %s'' [JStr uuid],
               PutConfig App_Info uuid (JObj [(''name'', JStr (cs_name spec))]),
               PutConfig App_Cluster uuid
                 (JObj [(''flux'', url),
                        (''namespace'', JStr (case cs_namespace spec of
                                                None \<Rightarrow> ''fplus-edge'' | Some ns \<Rightarrow> ns)),
                        (''kubeseal_cert'', JStr (cs_kubeseal_cert spec))])]"
  by (auto simp: create_cluster_objects_def Let_def bnd_def call_def split: sum.splits)

lemma setup_repo_links_events:
  assumes "setup_repo_links E co spec tr = (r, tr')"
  shows "\<exists>mid. tr' = tr @ mid \<and> list_all (\<lambda>ev. stage ev = 3) (effects mid)"
proof -
  have "within E 3 3 (setup_repo_links E co spec)"
    by (rule within_setup_repo_links) simp_all
  then obtain r0 evs where
    run: "setup_repo_links E co spec tr = (r0, tr @ evs)"
    and rng: "list_all (\<lambda>ev. 3 \<le> stage ev \<and> stage ev \<le> 3) (effects evs)"
    unfolding within_def by blast
  from rng have "list_all (\<lambda>ev. stage ev = 3) (effects evs)"
    by (simp add: list_all_iff le_antisym)
  moreover from run assms have "tr' = tr @ evs" by simp
  ultimately show ?thesis by blast
qed

lemma populate_cluster_repo_ok:
  assumes "populate_cluster_repo E repo spec tr = (Inr u, tr')"
  shows "\<exists>url co mid. js_get repo ''url'' = Inr url \<and>
     tr' = tr @ [Log ''Performing initial cluster deployment'' [], CheckoutInit url,
                 WriteFile co ''README.md'' (manifests_README E), Commit co ''Add README.''] @
           mid @ [Push co, Log ''Pushed initial commits'' []] \<and>
     list_all (\<lambda>ev. stage ev = 3) (effects mid)"
proof -
  have "\<exists>url. js_get repo ''url'' = Inr url"
    using assms by (cases "js_get repo ''url''") (simp_all add: populate_cluster_repo_def)
  then obtain url where url: "js_get repo ''url'' = Inr url" by blast
  have "\<exists>co. Checkout_init E url = Inr co"
    using assms url by (cases "Checkout_init E url") (simp_all add: populate_cluster_repo_def)
  then obtain co where co: "Checkout_init E url = Inr co" by blast
  have wf: "co_write_file E co ''README.md'' (manifests_README E) = Inr ()"
    using assms url co
    by (cases "co_write_file E co ''README.md'' (manifests_README E)")
       (simp_all add: populate_cluster_repo_def)
  have cm: "co_commit E co ''Add README.'' = Inr ()"
    using assms url co wf
    by (cases "co_commit E co ''Add README.''") (simp_all add: populate_cluster_repo_def)
  define tr1 where "tr1 = tr @ [Log ''Performing initial cluster deployment'' [], CheckoutInit url,
                 WriteFile co ''README.md'' (manifests_README E), Commit co ''Add README.'']"
  obtain r2 tr2 where links: "setup_repo_links E co spec tr1 = (r2, tr2)"
    by (cases "setup_repo_links E co spec tr1") blast
  from setup_repo_links_events [OF links] obtain mid where
    mid: "tr2 = tr1 @ mid" "list_all (\<lambda>ev. stage ev = 3) (effects mid)" by blast
  have run: "populate_cluster_repo E repo spec tr =
      (case r2 of Inl e \<Rightarrow> (Inl e, tr2)
       | Inr x \<Rightarrow> (case co_push E co of Inl e \<Rightarrow> (Inl e, tr2 @ [Push co])
                   | Inr y \<Rightarrow> (Inr (), tr2 @ [Push co, Log ''Pushed initial commits'' []])))"
    using url co wf cm links
    by (simp add: populate_cluster_repo_def bnd_def [of "setup_repo_links E co spec"] tr1_def
          split: sum.splits)
  have "tr' = tr2 @ [Push co, Log ''Pushed initial commits'' []]"
    using assms unfolding run by (cases r2; cases "co_push E co") simp_all
  then have "tr' = tr @ [Log ''Performing initial cluster deployment'' [], CheckoutInit url,
                 WriteFile co ''README.md'' (manifests_README E), Commit co ''Add README.''] @
           mid @ [Push co, Log ''Pushed initial commits'' []]"
    by (simp add: mid(1) tr1_def)
  with url mid(2) show ?thesis by blast
qed

lemma create_cluster_ok:
  assumes "create_cluster E req tr = (Inr r, tr')" and "status r = 201"
  shows "\<exists>res repo url uuid co mid.
     fplus_fetch E Service_Git ''POST'' (''/git/'' @ repo_group E @ ''/'' @ cs_name (body req)) = Inr res \<and>
     fr_status res = 200 \<and> fr_json res = Inr repo \<and> js_get repo ''url'' = Inr url \<and>
     r = \<lparr>status = 201, payload = Some (JObj [(''uuid'', JStr uuid), (''flux'', url)])\<rparr> \<and>
     tr' = tr @ [CheckAcl (auth req) Perm_Clusters UUIDs_Null False,
                 Log ''Creating repo %s'' [JStr (repo_group E @ ''/'' @ cs_name (body req))],
                 Fetch Service_Git ''POST'' (''/git/'' @ repo_group E @ ''/'' @ cs_name (body req)),
                 CreateObject Class_Cluster,
                 Log ''Created Edge Cluster %s'' [JStr uuid],
                 PutConfig App_Info uuid (JObj [(''name'', JStr (cs_name (body req)))]),
                 PutConfig App_Cluster uuid
                   (JObj [(''flux'', url),
                          (''namespace'', JStr (case cs_namespace (body req) of
                                                  None \<Rightarrow> ''fplus-edge'' | Some ns \<Rightarrow> ns)),
                          (''kubeseal_cert'', JStr (cs_kubeseal_cert (body req)))]),
                 Log ''Performing initial cluster deployment'' [], CheckoutInit url,
                 WriteFile co ''README.md'' (manifests_README E), Commit co ''Add README.''] @
           mid @ [Push co, Log ''Pushed initial commits'' []] \<and>
     list_all (\<lambda>ev. stage ev = 3) (effects mid)"
proof -
  define tr0 where "tr0 = tr @ [CheckAcl (auth req) Perm_Clusters UUIDs_Null False]"
  from assms have acl: "Auth_check_acl E (auth req) Perm_Clusters UUIDs_Null False = Inr True"
    by (cases "Auth_check_acl E (auth req) Perm_Clusters UUIDs_Null False")
       (auto simp: create_cluster_def Let_def split: if_splits)
  obtain r1 tr1 where cr: "create_repo E (cs_name (body req)) tr0 = (r1, tr1)"
    by (cases "create_repo E (cs_name (body req)) tr0") auto
  from assms acl cr obtain repo where r1: "r1 = Inr repo"
    by (cases r1) (auto simp: create_cluster_def Let_def bnd_def [of "create_repo E _"] tr0_def)
  from assms acl cr r1 obtain url where url: "js_get repo ''url'' = Inr url"
    by (cases "js_get repo ''url''")
       (auto simp: create_cluster_def Let_def bnd_def [of "create_repo E _"] tr0_def)
  obtain r2 tr2 where ob: "create_cluster_objects E (body req) url tr1 = (r2, tr2)"
    by (cases "create_cluster_objects E (body req) url tr1") auto
  from assms acl cr r1 url ob obtain uuid where r2: "r2 = Inr uuid"
    by (cases r2)
       (auto simp: create_cluster_def Let_def bnd_def [of "create_repo E _"]
          bnd_def [of "create_cluster_objects E _ _"] tr0_def)
  obtain r3 tr3 where po: "populate_cluster_repo E repo (body req) tr2 = (r3, tr3)"
    by (cases "populate_cluster_repo E repo (body req) tr2") auto
  from assms acl cr r1 url ob r2 po have r3: "r3 = Inr ()"
    and res: "r = \<lparr>status = 201, payload = Some (JObj [(''uuid'', JStr uuid), (''flux'', url)])\<rparr>"
    and tr': "tr' = tr3"
    by (cases r3;
        auto simp: create_cluster_def Let_def bnd_def [of "create_repo E _"]
          bnd_def [of "create_cluster_objects E _ _"] bnd_def [of "populate_cluster_repo E _ _"]
          tr0_def)+
  from create_repo_ok [OF cr [unfolded r1]] obtain res where
    t1: "tr1 = tr0 @ [Log ''Creating repo %s'' [JStr (repo_group E @ ''/'' @ cs_name (body req))],
               Fetch Service_Git ''POST'' (''/git/'' @ repo_group E @ ''/'' @ cs_name (body req))]"
    and fetch: "fplus_fetch E Service_Git ''POST'' (''/git/'' @ repo_group E @ ''/'' @ cs_name (body req)) = Inr res"
       "fr_status res = 200" "fr_json res = Inr repo" by blast
  note t2 = create_cluster_objects_ok [OF ob [unfolded r2]]
  from populate_cluster_repo_ok [OF po [unfolded r3]] url obtain co mid where
    t3: "tr3 = tr2 @ [Log ''Performing initial cluster deployment'' [], CheckoutInit url,
                 WriteFile co ''README.md'' (manifests_README E), Commit co ''Add README.''] @
           mid @ [Push co, Log ''Pushed initial commits'' []]"
    and mid: "list_all (\<lambda>ev. stage ev = 3) (effects mid)" by auto
  show ?thesis
    using fetch url res mid by (auto simp: tr' t3 t2 t1 tr0_def)
qed

text \<open>
  C2. In every run of cluster creation the collaborator calls occur in stage order:
  the repository is created (1) before the registry object is created and the \<open>Info\<close>
  and \<open>Cluster\<close> config records are written (2), those before the checkout is
  initialized, written to and committed (3), and every commit before the push (4). No
  call but the last one of a run has failed: when a step fails, no later step is
  started. A run that answers 201 made, with none failing, exactly the calls listed
  below in that order, the push last. (Log lines are left out of the comparison.)
\<close>

theorem create_cluster_order:
  "sorted (map stage (effects (snd (routes E POST_cluster req [])))) \<and>
   list_all (\<lambda>ev. \<not> failed E ev) (butlast (effects (snd (routes E POST_cluster req [])))) \<and>
   (\<forall>r. fst (routes E POST_cluster req []) = Sent r \<and> status r = 201 \<longrightarrow>
      list_all (\<lambda>ev. \<not> failed E ev) (effects (snd (routes E POST_cluster req []))) \<and>
      (\<exists>uuid url ns co mid.
         effects (snd (routes E POST_cluster req [])) =
           [CheckAcl (auth req) Perm_Clusters UUIDs_Null False,
            Fetch Service_Git ''POST'' (''/git/'' @ repo_group E @ ''/'' @ cs_name (body req)),
            CreateObject Class_Cluster,
            PutConfig App_Info uuid (JObj [(''name'', JStr (cs_name (body req)))]),
            PutConfig App_Cluster uuid
              (JObj [(''flux'', url), (''namespace'', JStr ns),
                     (''kubeseal_cert'', JStr (cs_kubeseal_cert (body req)))]),
            CheckoutInit url,
            WriteFile co ''README.md'' (manifests_README E),
            Commit co ''Add README.''] @ mid @ [Push co] \<and>
         list_all (\<lambda>ev. stage ev = 3) mid))"
proof -
  from within_create_cluster [of E req] obtain r0 evs where
    run: "create_cluster E req [] = (r0, [] @ evs)"
    and s: "sorted (map stage (effects evs))"
    and c: "list_all (\<lambda>ev. \<not> failed E ev) (butlast (effects evs))"
    and d: "isl r0 \<or> list_all (\<lambda>ev. \<not> failed E ev) (effects evs)"
    unfolding within_def by blast
  have out: "routes E POST_cluster req [] =
      ((case r0 of Inl e \<Rightarrow> Next e | Inr res \<Rightarrow> Sent res), evs)"
    using run by (simp add: wrap_def split: sum.splits)
  have "list_all (\<lambda>ev. \<not> failed E ev) (effects evs) \<and>
      (\<exists>uuid url ns co mid.
         effects evs =
           [CheckAcl (auth req) Perm_Clusters UUIDs_Null False,
            Fetch Service_Git ''POST'' (''/git/'' @ repo_group E @ ''/'' @ cs_name (body req)),
            CreateObject Class_Cluster,
            PutConfig App_Info uuid (JObj [(''name'', JStr (cs_name (body req)))]),
            PutConfig App_Cluster uuid
              (JObj [(''flux'', url), (''namespace'', JStr ns),
                     (''kubeseal_cert'', JStr (cs_kubeseal_cert (body req)))]),
            CheckoutInit url,
            WriteFile co ''README.md'' (manifests_README E),
            Commit co ''Add README.''] @ mid @ [Push co] \<and>
         list_all (\<lambda>ev. stage ev = 3) mid)"
    if ok: "r0 = Inr r" "status r = 201" for r
  proof -
    from run ok have run': "create_cluster E req [] = (Inr r, evs)" by simp
    from create_cluster_ok [OF run' ok(2)] obtain uuid url co mid where
      evs: "evs = [] @ [CheckAcl (auth req) Perm_Clusters UUIDs_Null False,
                 Log ''Creating repo %s'' [JStr (repo_group E @ ''/'' @ cs_name (body req))],
                 Fetch Service_Git ''POST'' (''/git/'' @ repo_group E @ ''/'' @ cs_name (body req)),
                 CreateObject Class_Cluster,
                 Log ''Created Edge Cluster %s'' [JStr uuid],
                 PutConfig App_Info uuid (JObj [(''name'', JStr (cs_name (body req)))]),
                 PutConfig App_Cluster uuid
                   (JObj [(''flux'', url),
                          (''namespace'', JStr (case cs_namespace (body req) of
                                                  None \<Rightarrow> ''fplus-edge'' | Some ns \<Rightarrow> ns)),
                          (''kubeseal_cert'', JStr (cs_kubeseal_cert (body req)))]),
                 Log ''Performing initial cluster deployment'' [], CheckoutInit url,
                 WriteFile co ''README.md'' (manifests_README E), Commit co ''Add README.''] @
           mid @ [Push co, Log ''Pushed initial commits'' []]"
      and mid: "list_all (\<lambda>ev. stage ev = 3) (effects mid)" by blast
    have "effects evs =
           [CheckAcl (auth req) Perm_Clusters UUIDs_Null False,
            Fetch Service_Git ''POST'' (''/git/'' @ repo_group E @ ''/'' @ cs_name (body req)),
            CreateObject Class_Cluster,
            PutConfig App_Info uuid (JObj [(''name'', JStr (cs_name (body req)))]),
            PutConfig App_Cluster uuid
              (JObj [(''flux'', url),
                     (''namespace'', JStr (case cs_namespace (body req) of
                                                  None \<Rightarrow> ''fplus-edge'' | Some ns \<Rightarrow> ns)),
                     (''kubeseal_cert'', JStr (cs_kubeseal_cert (body req)))]),
            CheckoutInit url,
            WriteFile co ''README.md'' (manifests_README E),
            Commit co ''Add README.''] @ effects mid @ [Push co]"
      by (simp add: evs)
    moreover from d ok have "list_all (\<lambda>ev. \<not> failed E ev) (effects evs)" by simp
    ultimately show ?thesis using mid by blast
  qed
  then show ?thesis
    unfolding out using s c by (cases r0) simp_all
qed

theorem create_cluster_order_witness:
  "fst (routes (demo_env []) POST_cluster (demo_req\<lparr>body := (body demo_req)\<lparr>cs_sources := None\<rparr>\<rparr>) []) =
     Sent \<lparr>status = 201,
           payload = Some (JObj [(''uuid'', JStr ''uuid-1''),
                                 (''flux'', JStr ''https://git.example/git/edge/cell1'')])\<rparr> \<and>
   effects (snd (routes (demo_env []) POST_cluster
                   (demo_req\<lparr>body := (body demo_req)\<lparr>cs_sources := None\<rparr>\<rparr>) [])) =
     [CheckAcl ''admin'' Perm_Clusters UUIDs_Null False,
      Fetch Service_Git ''POST'' ''/git/edge/cell1'',
      CreateObject Class_Cluster,
      PutConfig App_Info ''uuid-1'' (JObj [(''name'', JStr ''cell1'')]),
      PutConfig App_Cluster ''uuid-1''
        (JObj [(''flux'', JStr ''https://git.example/git/edge/cell1''),
               (''namespace'', JStr ''fplus-edge''), (''kubeseal_cert'', JStr ''PEM'')]),
      CheckoutInit (JStr ''https://git.example/git/edge/cell1''),
      WriteFile 8 ''README.md'' ''# Edge cluster'',
      Commit 8 ''Add README.'',
      Push 8] \<and>
   sorted (map stage (effects (snd (routes (demo_env []) POST_cluster
                   (demo_req\<lparr>body := (body demo_req)\<lparr>cs_sources := None\<rparr>\<rparr>) []))))"
proof -
  have a: "fst (routes (demo_env []) POST_cluster (demo_req\<lparr>body := (body demo_req)\<lparr>cs_sources := None\<rparr>\<rparr>) []) =
     Sent \<lparr>status = 201,
           payload = Some (JObj [(''uuid'', JStr ''uuid-1''),
                                 (''flux'', JStr ''https://git.example/git/edge/cell1'')])\<rparr>"
    by code_simp
  have b: "effects (snd (routes (demo_env []) POST_cluster
                   (demo_req\<lparr>body := (body demo_req)\<lparr>cs_sources := None\<rparr>\<rparr>) [])) =
     [CheckAcl ''admin'' Perm_Clusters UUIDs_Null False,
      Fetch Service_Git ''POST'' ''/git/edge/cell1'',
      CreateObject Class_Cluster,
      PutConfig App_Info ''uuid-1'' (JObj [(''name'', JStr ''cell1'')]),
      PutConfig App_Cluster ''uuid-1''
        (JObj [(''flux'', JStr ''https://git.example/git/edge/cell1''),
               (''namespace'', JStr ''fplus-edge''), (''kubeseal_cert'', JStr ''PEM'')]),
      CheckoutInit (JStr ''https://git.example/git/edge/cell1''),
      WriteFile 8 ''README.md'' ''# Edge cluster'',
      Commit 8 ''Add README.'',
      Push 8]"
    by code_simp
  from create_cluster_order [of "demo_env []" "demo_req\<lparr>body := (body demo_req)\<lparr>cs_sources := None\<rparr>\<rparr>"]
  have c: "sorted (map stage (effects (snd (routes (demo_env []) POST_cluster
                   (demo_req\<lparr>body := (body demo_req)\<lparr>cs_sources := None\<rparr>\<rparr>) []))))"
    by (rule conjunct1)
  from a b c show ?thesis by (intro conjI)
qed

section \<open>Repository creation\<close>

text \<open>
  As stated, C6 fails: \<open>create_repo\<close> takes the status 200 alone for success. When the
  Git hosting service answers 201 Created, with the repository record as its body, the
  record is not returned: \<open>create_repo\<close> throws, and the handler fails with that value.
\<close>

theorem create_repo_throws_on_201:
  "fplus_fetch (demo_env []) Service_Git ''POST'' ''/git/edge/fresh'' =
     Inr \<lparr>fr_status = 201,
          fr_json = Inr (JObj [(''url'', JStr ''https://git.example/git/edge/fresh'')])\<rparr> \<and>
   fst (create_repo (demo_env []) ''fresh'' []) =
     Inl (Thrown ''Git: can't create repo edge/fresh: 201'') \<and>
   fst (routes (demo_env []) POST_cluster
          (demo_req\<lparr>body := (body demo_req)\<lparr>cs_name := ''fresh''\<rparr>\<rparr>) []) =
     Next (Thrown ''Git: can't create repo edge/fresh: 201'')"
  by code_simp

lemma create_cluster_objects_run:
  assumes "ConfigDB_create_object E Class_Cluster = Inr uuid"
    and "ConfigDB_put_config E App_Info uuid (JObj [(''name'', JStr (cs_name spec))]) = Inr ()"
  shows "create_cluster_objects E spec url tr =
     (case ConfigDB_put_config E App_Cluster uuid
             (JObj [(''flux'', url),
                    (''namespace'', JStr (case cs_namespace spec of
                                            None \<Rightarrow> ''fplus-edge'' | Some ns \<Rightarrow> ns)),
                    (''kubeseal_cert'', JStr (cs_kubeseal_cert spec))]) of
        Inl e \<Rightarrow> Inl e
      | Inr u \<Rightarrow> Inr uuid,
      tr @ [CreateObject Class_Cluster,
            Log ''Created Edge Cluster %s'' [JStr uuid],
            PutConfig App_Info uuid (JObj [(''name'', JStr (cs_name spec))]),
            PutConfig App_Cluster uuid
              (JObj [(''flux'', url),
                     (''namespace'', JStr (case cs_namespace spec of
                                             None \<Rightarrow> ''fplus-edge'' | Some ns \<Rightarrow> ns)),
                     (''kubeseal_cert'', JStr (cs_kubeseal_cert spec))])])"
  using assms
  by (simp add: create_cluster_objects_def Let_def split: sum.splits)

lemma populate_cluster_repo_appends:
  "\<exists>r evs. populate_cluster_repo E repo spec tr = (r, tr @ evs)"
proof -
  have "within E 3 4 (populate_cluster_repo E repo spec)"
    by (rule within_populate_cluster_repo) simp_all
  then show ?thesis unfolding within_def by blast
qed

lemma cluster_config_written:
  assumes acl: "Auth_check_acl E (auth req) Perm_Clusters UUIDs_Null False = Inr True"
    and fetch: "fplus_fetch E Service_Git ''POST''
                  (''/git/'' @ repo_group E @ ''/'' @ cs_name (body req)) = Inr res"
    and ok: "fr_status res = 200" and repo: "fr_json res = Inr repo"
    and url: "js_get repo ''url'' = Inr url"
    and obj: "ConfigDB_create_object E Class_Cluster = Inr uuid"
    and info: "ConfigDB_put_config E App_Info uuid
                 (JObj [(''name'', JStr (cs_name (body req)))]) = Inr ()"
  shows "PutConfig App_Cluster uuid
           (JObj [(''flux'', url),
                  (''namespace'', JStr (case cs_namespace (body req) of
                                          None \<Rightarrow> ''fplus-edge'' | Some ns \<Rightarrow> ns)),
                  (''kubeseal_cert'', JStr (cs_kubeseal_cert (body req)))])
           \<in> set (snd (routes E POST_cluster req tr))"
proof -
  define cfg where "cfg = JObj [(''flux'', url),
                  (''namespace'', JStr (case cs_namespace (body req) of
                                          None \<Rightarrow> ''fplus-edge'' | Some ns \<Rightarrow> ns)),
                  (''kubeseal_cert'', JStr (cs_kubeseal_cert (body req)))]"
  define tr1 where "tr1 = tr @ [CheckAcl (auth req) Perm_Clusters UUIDs_Null False,
        Log ''Creating repo %s'' [JStr (repo_group E @ ''/'' @ cs_name (body req))],
        Fetch Service_Git ''POST'' (''/git/'' @ repo_group E @ ''/'' @ cs_name (body req))]"
  define tr2 where "tr2 = tr1 @ [CreateObject Class_Cluster,
            Log ''Created Edge Cluster %s'' [JStr uuid],
            PutConfig App_Info uuid (JObj [(''name'', JStr (cs_name (body req)))]),
            PutConfig App_Cluster uuid cfg]"
  have cr: "create_repo E (cs_name (body req))
              (tr @ [CheckAcl (auth req) Perm_Clusters UUIDs_Null False]) = (Inr repo, tr1)"
    using fetch ok repo by (simp add: create_repo_run tr1_def)
  have ob: "create_cluster_objects E (body req) url tr1 =
      (case ConfigDB_put_config E App_Cluster uuid cfg of Inl e \<Rightarrow> Inl e | Inr u \<Rightarrow> Inr uuid, tr2)"
    unfolding cfg_def tr2_def by (rule create_cluster_objects_run [OF obj info])
  from populate_cluster_repo_appends [of E repo "body req" tr2] obtain r3 evs where
    po: "populate_cluster_repo E repo (body req) tr2 = (r3, tr2 @ evs)" by blast
  have "snd (create_cluster E req tr) = tr2 \<or> snd (create_cluster E req tr) = tr2 @ evs"
    using acl cr url ob po
    by (cases "ConfigDB_put_config E App_Cluster uuid cfg"; cases r3)
       (simp_all add: create_cluster_def Let_def bnd_def [of "create_repo E _"]
          bnd_def [of "create_cluster_objects E _ _"] bnd_def [of "populate_cluster_repo E _ _"])
  moreover have "snd (routes E POST_cluster req tr) = snd (create_cluster E req tr)"
    by (simp add: wrap_def split: prod.splits sum.splits)
  moreover have "PutConfig App_Cluster uuid cfg \<in> set tr2" by (simp add: tr2_def)
  ultimately show ?thesis unfolding cfg_def by auto
qed

text \<open>
  C6, amended. Step 1 of cluster creation: when the Git hosting service answers with a
  status other than 200 (a 201 or 204 included), \<open>create_repo\<close> throws the string
  \<open>Git: can't create repo <group>/<name>: <status>\<close>, which carries the upstream
  status code, and the handler fails with it; when the status is 200 it returns what
  \<open>res.json()\<close> resolves to, the created repository record. That record's \<open>url\<close> becomes
  the cluster's flux repository URL: once the registry object and the \<open>Info\<close> record
  are written it is the \<open>flux\<close> field of the \<open>Cluster\<close> config record the handler
  writes, whatever happens later in the run, and on a run that answers 201 it is the
  \<open>flux\<close> field of the response.
\<close>

theorem create_repo_outcome:
  "(fplus_fetch E Service_Git ''POST'' (''/git/'' @ repo_group E @ ''/'' @ name) = Inr res \<longrightarrow>
      fst (create_repo E name tr) =
        (if fr_status res \<noteq> 200
         then Inl (Thrown (''Git: can't create repo '' @ repo_group E @ ''/'' @ name @ '': '' @
                     show_nat (fr_status res)))
         else fr_json res)) \<and>
   (Auth_check_acl E (auth req) Perm_Clusters UUIDs_Null False = Inr True \<and>
    fplus_fetch E Service_Git ''POST'' (''/git/'' @ repo_group E @ ''/'' @ cs_name (body req)) = Inr res \<and>
    fr_status res \<noteq> 200 \<longrightarrow>
      fst (routes E POST_cluster req tr) =
        Next (Thrown (''Git: can't create repo '' @ repo_group E @ ''/'' @ cs_name (body req) @
                '': '' @ show_nat (fr_status res)))) \<and>
   (Auth_check_acl E (auth req) Perm_Clusters UUIDs_Null False = Inr True \<and>
    fplus_fetch E Service_Git ''POST'' (''/git/'' @ repo_group E @ ''/'' @ cs_name (body req)) = Inr res \<and>
    fr_status res = 200 \<and> fr_json res = Inr repo \<and> js_get repo ''url'' = Inr url \<and>
    ConfigDB_create_object E Class_Cluster = Inr uuid \<and>
    ConfigDB_put_config E App_Info uuid (JObj [(''name'', JStr (cs_name (body req)))]) = Inr () \<longrightarrow>
      PutConfig App_Cluster uuid
        (JObj [(''flux'', url),
               (''namespace'', JStr (case cs_namespace (body req) of
                                       None \<Rightarrow> ''fplus-edge'' | Some ns \<Rightarrow> ns)),
               (''kubeseal_cert'', JStr (cs_kubeseal_cert (body req)))])
        \<in> set (snd (routes E POST_cluster req tr))) \<and>
   (fst (routes E POST_cluster req tr) = Sent r \<and> status r = 201 \<longrightarrow>
      (\<exists>res repo url uuid.
         fplus_fetch E Service_Git ''POST'' (''/git/'' @ repo_group E @ ''/'' @ cs_name (body req)) = Inr res \<and>
         fr_status res = 200 \<and> fr_json res = Inr repo \<and> js_get repo ''url'' = Inr url \<and>
         payload r = Some (JObj [(''uuid'', JStr uuid), (''flux'', url)]) \<and>
         PutConfig App_Cluster uuid
           (JObj [(''flux'', url),
                  (''namespace'', JStr (case cs_namespace (body req) of
                                          None \<Rightarrow> ''fplus-edge'' | Some ns \<Rightarrow> ns)),
                  (''kubeseal_cert'', JStr (cs_kubeseal_cert (body req)))])
           \<in> set (snd (routes E POST_cluster req tr))))"
proof (intro conjI impI)
  assume "fplus_fetch E Service_Git ''POST'' (''/git/'' @ repo_group E @ ''/'' @ name) = Inr res"
  then show "fst (create_repo E name tr) =
        (if fr_status res \<noteq> 200
         then Inl (Thrown (''Git: can't create repo '' @ repo_group E @ ''/'' @ name @ '': '' @
                     show_nat (fr_status res)))
         else fr_json res)"
    by (simp add: create_repo_run)
next
  assume a: "Auth_check_acl E (auth req) Perm_Clusters UUIDs_Null False = Inr True \<and>
    fplus_fetch E Service_Git ''POST'' (''/git/'' @ repo_group E @ ''/'' @ cs_name (body req)) = Inr res \<and>
    fr_status res \<noteq> 200"
  then show "fst (routes E POST_cluster req tr) =
        Next (Thrown (''Git: can't create repo '' @ repo_group E @ ''/'' @ cs_name (body req) @
                '': '' @ show_nat (fr_status res)))"
    by (simp add: create_cluster_def Let_def wrap_def bnd_def [of "create_repo E _"] create_repo_run)
next
  assume "Auth_check_acl E (auth req) Perm_Clusters UUIDs_Null False = Inr True \<and>
    fplus_fetch E Service_Git ''POST'' (''/git/'' @ repo_group E @ ''/'' @ cs_name (body req)) = Inr res \<and>
    fr_status res = 200 \<and> fr_json res = Inr repo \<and> js_get repo ''url'' = Inr url \<and>
    ConfigDB_create_object E Class_Cluster = Inr uuid \<and>
    ConfigDB_put_config E App_Info uuid (JObj [(''name'', JStr (cs_name (body req)))]) = Inr ()"
  then show "PutConfig App_Cluster uuid
        (JObj [(''flux'', url),
               (''namespace'', JStr (case cs_namespace (body req) of
                                       None \<Rightarrow> ''fplus-edge'' | Some ns \<Rightarrow> ns)),
               (''kubeseal_cert'', JStr (cs_kubeseal_cert (body req)))])
        \<in> set (snd (routes E POST_cluster req tr))"
    by (elim conjE) (rule cluster_config_written, assumption+)
next
  assume ok: "fst (routes E POST_cluster req tr) = Sent r \<and> status r = 201"
  obtain r0 tr' where run: "create_cluster E req tr = (r0, tr')"
    by (cases "create_cluster E req tr") blast
  from ok run have r0: "r0 = Inr r" by (cases r0) (simp_all add: wrap_def)
  from run r0 have out: "snd (routes E POST_cluster req tr) = tr'" by (simp add: wrap_def)
  from create_cluster_ok [OF run [unfolded r0]] ok obtain res repo url uuid co mid where
    f: "fplus_fetch E Service_Git ''POST'' (''/git/'' @ repo_group E @ ''/'' @ cs_name (body req)) = Inr res"
       "fr_status res = 200" "fr_json res = Inr repo" "js_get repo ''url'' = Inr url"
    and r: "r = \<lparr>status = 201, payload = Some (JObj [(''uuid'', JStr uuid), (''flux'', url)])\<rparr>"
    and t: "tr' = tr @ [CheckAcl (auth req) Perm_Clusters UUIDs_Null False,
                 Log ''Creating repo %s'' [JStr (repo_group E @ ''/'' @ cs_name (body req))],
                 Fetch Service_Git ''POST'' (''/git/'' @ repo_group E @ ''/'' @ cs_name (body req)),
                 CreateObject Class_Cluster,
                 Log ''Created Edge Cluster %s'' [JStr uuid],
                 PutConfig App_Info uuid (JObj [(''name'', JStr (cs_name (body req)))]),
                 PutConfig App_Cluster uuid
                   (JObj [(''flux'', url),
                          (''namespace'', JStr (case cs_namespace (body req) of
                                                  None \<Rightarrow> ''fplus-edge'' | Some ns \<Rightarrow> ns)),
                          (''kubeseal_cert'', JStr (cs_kubeseal_cert (body req)))]),
                 Log ''Performing initial cluster deployment'' [], CheckoutInit url,
                 WriteFile co ''README.md'' (manifests_README E), Commit co ''Add README.''] @
           mid @ [Push co, Log ''Pushed initial commits'' []]"
    by blast
  have "PutConfig App_Cluster uuid
           (JObj [(''flux'', url),
                  (''namespace'', JStr (case cs_namespace (body req) of
                                          None \<Rightarrow> ''fplus-edge'' | Some ns \<Rightarrow> ns)),
                  (''kubeseal_cert'', JStr (cs_kubeseal_cert (body req)))])
           \<in> set (snd (routes E POST_cluster req tr))"
    unfolding out t by simp
  moreover have "payload r = Some (JObj [(''uuid'', JStr uuid), (''flux'', url)])"
    by (simp add: r)
  ultimately show "\<exists>res repo url uuid.
         fplus_fetch E Service_Git ''POST'' (''/git/'' @ repo_group E @ ''/'' @ cs_name (body req)) = Inr res \<and>
         fr_status res = 200 \<and> fr_json res = Inr repo \<and> js_get repo ''url'' = Inr url \<and>
         payload r = Some (JObj [(''uuid'', JStr uuid), (''flux'', url)]) \<and>
         PutConfig App_Cluster uuid
           (JObj [(''flux'', url),
                  (''namespace'', JStr (case cs_namespace (body req) of
                                          None \<Rightarrow> ''fplus-edge'' | Some ns \<Rightarrow> ns)),
                  (''kubeseal_cert'', JStr (cs_kubeseal_cert (body req)))])
           \<in> set (snd (routes E POST_cluster req tr))"
    using f by blast
qed

theorem create_repo_outcome_witness:
  "fst (create_repo (demo_env []) ''taken'' []) =
     Inl (Thrown ''Git: can't create repo edge/taken: 409'') \<and>
   fst (create_repo (demo_env []) ''cell1'' []) =
     Inr (JObj [(''url'', JStr ''https://git.example/git/edge/cell1'')]) \<and>
   fst (routes (demo_env []) POST_cluster
          (demo_req\<lparr>body := (body demo_req)\<lparr>cs_name := ''taken''\<rparr>\<rparr>) []) =
     Next (Thrown ''Git: can't create repo edge/taken: 409'') \<and>
   (\<exists>res repo url uuid.
      fplus_fetch (demo_env []) Service_Git ''POST'' ''/git/edge/cell1'' = Inr res \<and>
      fr_status res = 200 \<and> fr_json res = Inr repo \<and> js_get repo ''url'' = Inr url \<and>
      url = JStr ''https://git.example/git/edge/cell1'' \<and>
      PutConfig App_Cluster uuid
        (JObj [(''flux'', url), (''namespace'', JStr ''fplus-edge''),
               (''kubeseal_cert'', JStr ''PEM'')])
        \<in> set (snd (routes (demo_env []) POST_cluster
                       (demo_req\<lparr>body := (body demo_req)\<lparr>cs_sources := None\<rparr>\<rparr>) []))) \<and>
   PutConfig App_Cluster ''uuid-1''
     (JObj [(''flux'', JStr ''https://git.example/git/edge/cell1''),
            (''namespace'', JStr ''fplus-edge''), (''kubeseal_cert'', JStr ''PEM'')])
     \<in> set (snd (routes (demo_env []) POST_cluster demo_req []))"
proof -
  have n409: "show_nat 409 = ''409''" by code_simp
  have f1: "fplus_fetch (demo_env []) Service_Git ''POST''
              (''/git/'' @ repo_group (demo_env []) @ ''/'' @ ''taken'') =
            Inr \<lparr>fr_status = 409,
                 fr_json = Inr (JObj [(''url'', JStr ''https://git.example/git/edge/taken'')])\<rparr>"
    by (simp add: demo_env_def)
  have f2: "fplus_fetch (demo_env []) Service_Git ''POST''
              (''/git/'' @ repo_group (demo_env []) @ ''/'' @ ''cell1'') =
            Inr \<lparr>fr_status = 200,
                 fr_json = Inr (JObj [(''url'', JStr ''https://git.example/git/edge/cell1'')])\<rparr>"
    by (simp add: demo_env_def)
  have g: "repo_group (demo_env []) = ''edge''" by (simp add: demo_env_def)
  have c1: "fst (create_repo (demo_env []) ''taken'' []) =
     Inl (Thrown ''Git: can't create repo edge/taken: 409'')"
    using create_repo_outcome [THEN conjunct1, rule_format, OF f1, of "[]"]
    by (simp add: n409 g)
  have c2: "fst (create_repo (demo_env []) ''cell1'' []) =
     Inr (JObj [(''url'', JStr ''https://git.example/git/edge/cell1'')])"
    using create_repo_outcome [THEN conjunct1, rule_format, OF f2, of "[]"]
    by simp
  have c3: "fst (routes (demo_env []) POST_cluster
          (demo_req\<lparr>body := (body demo_req)\<lparr>cs_name := ''taken''\<rparr>\<rparr>) []) =
     Next (Thrown ''Git: can't create repo edge/taken: 409'')"
    by code_simp
  have ok: "fst (routes (demo_env []) POST_cluster
                 (demo_req\<lparr>body := (body demo_req)\<lparr>cs_sources := None\<rparr>\<rparr>) []) =
              Sent \<lparr>status = 201,
                    payload = Some (JObj [(''uuid'', JStr ''uuid-1''),
                                          (''flux'', JStr ''https://git.example/git/edge/cell1'')])\<rparr> \<and>
            status \<lparr>status = 201,
                    payload = Some (JObj [(''uuid'', JStr ''uuid-1''),
                                          (''flux'', JStr ''https://git.example/git/edge/cell1'')])\<rparr> = 201"
    by code_simp
  have c4: "\<exists>res repo url uuid.
      fplus_fetch (demo_env []) Service_Git ''POST'' ''/git/edge/cell1'' = Inr res \<and>
      fr_status res = 200 \<and> fr_json res = Inr repo \<and> js_get repo ''url'' = Inr url \<and>
      url = JStr ''https://git.example/git/edge/cell1'' \<and>
      PutConfig App_Cluster uuid
        (JObj [(''flux'', url), (''namespace'', JStr ''fplus-edge''),
               (''kubeseal_cert'', JStr ''PEM'')])
        \<in> set (snd (routes (demo_env []) POST_cluster
                       (demo_req\<lparr>body := (body demo_req)\<lparr>cs_sources := None\<rparr>\<rparr>) []))"
    using create_repo_outcome [THEN conjunct2, THEN conjunct2, THEN conjunct2, rule_format, OF ok]
    by (auto simp: demo_env_def demo_req_def)
  have pre: "Auth_check_acl (demo_env []) (auth demo_req) Perm_Clusters UUIDs_Null False = Inr True \<and>
    fplus_fetch (demo_env []) Service_Git ''POST''
      (''/git/'' @ repo_group (demo_env []) @ ''/'' @ cs_name (body demo_req)) =
      Inr \<lparr>fr_status = 200,
           fr_json = Inr (JObj [(''url'', JStr ''https://git.example/git/edge/cell1'')])\<rparr> \<and>
    fr_status \<lparr>fr_status = 200,
           fr_json = Inr (JObj [(''url'', JStr ''https://git.example/git/edge/cell1'')])\<rparr> = 200 \<and>
    fr_json \<lparr>fr_status = 200,
           fr_json = Inr (JObj [(''url'', JStr ''https://git.example/git/edge/cell1'')])\<rparr> =
      Inr (JObj [(''url'', JStr ''https://git.example/git/edge/cell1'')]) \<and>
    js_get (JObj [(''url'', JStr ''https://git.example/git/edge/cell1'')]) ''url'' =
      Inr (JStr ''https://git.example/git/edge/cell1'') \<and>
    ConfigDB_create_object (demo_env []) Class_Cluster = Inr ''uuid-1'' \<and>
    ConfigDB_put_config (demo_env []) App_Info ''uuid-1''
      (JObj [(''name'', JStr (cs_name (body demo_req)))]) = Inr ()"
    by (simp add: demo_env_def demo_req_def)
  have c5: "PutConfig App_Cluster ''uuid-1''
     (JObj [(''flux'', JStr ''https://git.example/git/edge/cell1''),
            (''namespace'', JStr ''fplus-edge''), (''kubeseal_cert'', JStr ''PEM'')])
     \<in> set (snd (routes (demo_env []) POST_cluster demo_req []))"
    using create_repo_outcome [THEN conjunct2, THEN conjunct2, THEN conjunct1, rule_format,
            OF pre, of "[]"]
    by (simp add: demo_req_def)
  from c1 c2 c3 c4 c5 show ?thesis by (intro conjI)
qed

section \<open>Populating the repository\<close>

text \<open>
  Whenever the request has sources, \<open>setup_repo_links\<close> fails at the call of
  \<open>this.write_sealed_secret\<close>, after the service discovery and before anything is
  written.
\<close>

lemma setup_repo_links_run:
  "setup_repo_links E co spec tr =
     (case cs_sources spec of
        None \<Rightarrow> (Inr (), tr)
      | Some sources \<Rightarrow>
          (case Discovery_service_url E Service_Git of
             Inl e \<Rightarrow> (Inl e, tr @ [ServiceUrl Service_Git])
           | Inr git_base \<Rightarrow>
               (Inl (TypeError ''this.write_sealed_secret is not a function''),
                tr @ [ServiceUrl Service_Git])))"
  by (simp add: setup_repo_links_def write_sealed_secret_def split: option.splits sum.splits)

text \<open>
  C7. The claim: the population step writes the sealed secret \<open>op1flux-secrets\<close>
  (key \<open>username\<close>, content \<open>op1flux/<cluster-name>\<close>) into flux-system before the
  source manifests are written and committed. The code does not meet it. In the
  specification's scenario, a request for \<open>cell1\<close> with the source \<open>org/repoA\<close>, the
  handler ends in a TypeError after the README commit and the service discovery: no
  sealed secret is written, nothing is pushed, and the repository and the registry
  records stay behind.
\<close>

theorem sealed_secret_never_written:
  "routes (demo_env []) POST_cluster demo_req [] =
     (Next (TypeError ''this.write_sealed_secret is not a function''),
      [CheckAcl ''admin'' Perm_Clusters UUIDs_Null False,
       Log ''Creating repo %s'' [JStr ''edge/cell1''],
       Fetch Service_Git ''POST'' ''/git/edge/cell1'',
       CreateObject Class_Cluster,
       Log ''Created Edge Cluster %s'' [JStr ''uuid-1''],
       PutConfig App_Info ''uuid-1'' (JObj [(''name'', JStr ''cell1'')]),
       PutConfig App_Cluster ''uuid-1''
         (JObj [(''flux'', JStr ''https://git.example/git/edge/cell1''),
                (''namespace'', JStr ''fplus-edge''), (''kubeseal_cert'', JStr ''PEM'')]),
       Log ''Performing initial cluster deployment'' [],
       CheckoutInit (JStr ''https://git.example/git/edge/cell1''),
       WriteFile 8 ''README.md'' ''# Edge cluster'',
       Commit 8 ''Add README.'',
       ServiceUrl Service_Git])"
  by code_simp

text \<open>
  C8. The claim: for every entry of the sources, a \<open>GitRepository\<close> manifest and a
  matching Kustomization manifest, named by the source with \<open>/\<close> replaced by \<open>.\<close>,
  are written in flux-system. The code does not meet it: for the same request,
  \<open>setup_repo_links\<close> fails before the loop over the sources, and no manifest is
  written.
\<close>

theorem source_manifests_never_written:
  "setup_repo_links (demo_env []) 8 (body demo_req) [] =
     (Inl (TypeError ''this.write_sealed_secret is not a function''), [ServiceUrl Service_Git])"
  by code_simp

text \<open>
  What the loop over the sources would do if it were reached: for \<open>org/repoA\<close>, the
  two manifests named \<open>org.repoA\<close> in flux-system. The name is made by
  \<open>source.replace("/", ".")\<close>, which replaces the first \<open>/\<close> only.
\<close>

lemma write_sources_example:
  "write_sources (demo_env []) 8 ''https://git.example/'' [''org/repoA''] [] =
     (Inr (),
      [Log ''Adding source %s'' [JStr ''https://git.example/org/repoA''],
       WriteManifest 8
         (JObj [(''kind'', JStr ''GitRepository''), (''namespace'', JStr ''flux-system''),
                (''name'', JStr ''org.repoA''), (''url'', JStr ''https://git.example/org/repoA'')]),
       WriteManifest 8
         (JObj [(''kind'', JStr ''Kustomization''), (''namespace'', JStr ''flux-system''),
                (''name'', JStr ''org.repoA''), (''source'', JStr ''org.repoA'')])])"
  by code_simp

lemma replace_first_example:
  "replace_first (CHR ''/'') (CHR ''.'') ''org/repoA'' = ''org.repoA'' \<and>
   replace_first (CHR ''/'') (CHR ''.'') ''org/team/repoA'' = ''org.team/repoA''"
  by simp

end
